theory Spec2Isabelle
  imports Complex_Main
begin

section \<open>JavaScript strings\<close>

text \<open>
  A JavaScript string is modelled as a \<^typ>\<open>string\<close>: one \<^typ>\<open>char\<close> per UTF-16 code unit,
  for the code units below 256. \<open>String.prototype.trim\<close> removes white space and line
  terminators from both ends; below 256 these are TAB, LF, VT, FF, CR, SPACE and NBSP.
\<close>

definition is_ws :: "char \<Rightarrow> bool" where
  "is_ws c = (c \<in> set [CHR 0x09, CHR 0x0A, CHR 0x0B, CHR 0x0C, CHR 0x0D, CHR '' '', CHR 0xA0])"

definition trim :: "string \<Rightarrow> string" where
  "trim s = rev (dropWhile is_ws (rev (dropWhile is_ws s)))"

text \<open>
  \<open>s.split(sep)\<close> for a one-character separator: every occurrence of the separator ends
  a piece, so the empty string gives one empty piece and two separators in a row give
  an empty piece between them. The result is never the empty list; the second branch of
  the \<open>case\<close> is there for totality only.
\<close>

fun split_on :: "char \<Rightarrow> string \<Rightarrow> string list" where
  "split_on sep [] = [[]]"
| "split_on sep (c # cs) =
     (if c = sep then [] # split_on sep cs
      else (case split_on sep cs of t # ts \<Rightarrow> (c # t) # ts | [] \<Rightarrow> [[c]]))"

text \<open>\<open>pieces.join(sep)\<close> for a one-character separator.\<close>

fun join_with :: "char \<Rightarrow> string list \<Rightarrow> string" where
  "join_with sep [] = []"
| "join_with sep [t] = t"
| "join_with sep (t # u # ts) = t @ sep # join_with sep (u # ts)"

section \<open>Data model of the HTTP interface\<close>

text \<open>
  The interfaces of the search page (\<open>ChunkResult\<close>, \<open>SearchResponse\<close>) and of the chat page
  (\<open>Citation\<close>, \<open>ContextHit\<close>, \<open>QAResponse\<close>). Field names carry a prefix where two
  interfaces share a name or the name is taken in HOL (\<open>id\<close>, \<open>text\<close>, \<open>query\<close>).
  Numbers that are identifiers or indices are integers; scores are reals, of which the
  pages use the order only.
\<close>

record ChunkResult =
  cr_id :: int
  cr_text :: string
  cr_chunk_index :: int
  cr_document_id :: int
  cr_filename :: string
  similarity_score :: real

record SearchResponse =
  sr_query :: string
  sr_results :: "ChunkResult list"
  total_results :: int

record Citation =
  cit_document_id :: int
  cit_chunk_index :: int

record ContextHit =
  hit_document_id :: int
  hit_chunk_index :: int
  score :: real
  preview :: string

text \<open>
  The chat page reads each field of the answer through \<open>data.f || default\<close>, so a field
  may be absent from the JSON object: \<open>None\<close> is the absent (or null) field.
\<close>

record QAResponse =
  qa_answer :: "string option"
  qa_citations :: "Citation list option"
  qa_hits :: "ContextHit list option"

section \<open>The retrieval and answer service\<close>

text \<open>
  The service behind \<open>POST /search\<close> and \<open>POST /qa\<close> (the API application of the
  repository) is not among the source files; only the pages that call it are. Its two
  operations \<open>search\<close> and \<open>answer\<close> are modelled from sections 3, 4.2, 7 and 8 of the
  specification.

  Modelled from the spec: the error kinds of section 7, which the missing service raises.
\<close>

datatype error =
  UnsupportedSourceError
| ExtractionError
| EmptyIndexError
| AlreadyProcessingError
| GenerationUnavailableError

text \<open>
  Modelled from the spec: the chunk of section 3, as the missing metadata store holds it:
  identifier, owning document, ordinal index, text span, optional embedding.
\<close>

record 'v Chunk =
  chunk_id :: int
  chunk_document :: int
  chunk_ordinal :: int
  chunk_text :: string
  chunk_embedding :: "'v option"

text \<open>
  Modelled from the spec: the external capabilities of section 2 that the missing
  service relies on, taken as parameters: the embedder, the similarity of two
  vectors, the metadata store's file name of a document, the size of a text in tokens,
  the preview shown for a chunk, and the local LLM, which is handed the query, the
  context (each chunk text with its citation key) and the token limit and answers with
  a text and the citations it makes, or is unreachable (\<open>None\<close>).
\<close>

record 'v capabilities =
  embedder :: "string \<Rightarrow> 'v"
  similarity :: "'v \<Rightarrow> 'v \<Rightarrow> real"
  filename_of :: "int \<Rightarrow> string"
  token_count :: "string \<Rightarrow> nat"
  preview_of :: "string \<Rightarrow> string"
  llm :: "string \<Rightarrow> (Citation \<times> string) list \<Rightarrow> nat \<Rightarrow> (string \<times> Citation list) option"

text \<open>
  Modelled from the spec: the content of the vector index, that is the chunks that have
  been embedded, each with its vector.
\<close>

definition embedded_chunks :: "'v Chunk list \<Rightarrow> ('v Chunk \<times> 'v) list" where
  "embedded_chunks cs = List.map_filter (\<lambda>c. map_option (Pair c) (chunk_embedding c)) cs"

text \<open>
  Modelled from the spec: the query of the vector index in \<open>search\<close> (4.2), of which the
  sources have no code. The query is
  embedded with the embedder used at ingestion, every embedded chunk is scored against
  it, and the \<open>k\<close> best are returned by descending score (equal scores keep the order of
  the index). It fails with \<open>EmptyIndexError\<close> when nothing has been embedded.
\<close>

definition nearest ::
  "'v capabilities \<Rightarrow> 'v Chunk list \<Rightarrow> string \<Rightarrow> nat \<Rightarrow> error + ('v Chunk \<times> real) list" where
  "nearest cap cs q k =
     (let qv = embedder cap q;
          scored = map (\<lambda>(c, v). (c, similarity cap qv v)) (embedded_chunks cs)
      in if scored = [] then Inl EmptyIndexError
         else Inr (take k (sort_key (\<lambda>(c, s). - s) scored)))"

text \<open>
  Modelled from the spec: the join of a hit with the metadata of its document, giving a
  result of the shape of section 6.
\<close>

definition join_metadata :: "'v capabilities \<Rightarrow> 'v Chunk \<times> real \<Rightarrow> ChunkResult" where
  "join_metadata cap h =
     \<lparr>cr_id = chunk_id (fst h), cr_text = chunk_text (fst h),
      cr_chunk_index = chunk_ordinal (fst h), cr_document_id = chunk_document (fst h),
      cr_filename = filename_of cap (chunk_document (fst h)), similarity_score = snd h\<rparr>"

text \<open>
  Modelled from the spec: \<open>search(query, k)\<close> (4.2, 6, 7), of which the sources have no
  code. Each hit is joined with its document's metadata (\<open>join_metadata\<close>, above); the
  empty index is the valid empty result, not an error.
\<close>

definition search ::
  "'v capabilities \<Rightarrow> 'v Chunk list \<Rightarrow> string \<Rightarrow> nat \<Rightarrow> error + SearchResponse" where
  "search cap cs q k =
     (case nearest cap cs q k of
        Inl EmptyIndexError \<Rightarrow> Inr \<lparr>sr_query = q, sr_results = [], total_results = 0\<rparr>
      | Inl e \<Rightarrow> Inl e
      | Inr hits \<Rightarrow>
          Inr \<lparr>sr_query = q, sr_results = map (join_metadata cap) hits,
               total_results = int (length hits)\<rparr>)"

text \<open>
  Modelled from the spec: the citation of section 3, a pair of a document identifier and
  a chunk index, for a chunk and for a hit, and the hit of section 6 made from a
  retrieved chunk.
\<close>

definition chunk_key :: "'v Chunk \<Rightarrow> Citation" where
  "chunk_key c = \<lparr>cit_document_id = chunk_document c, cit_chunk_index = chunk_ordinal c\<rparr>"

definition hit_key :: "ContextHit \<Rightarrow> Citation" where
  "hit_key h = \<lparr>cit_document_id = hit_document_id h, cit_chunk_index = hit_chunk_index h\<rparr>"

definition context_hit :: "'v capabilities \<Rightarrow> 'v Chunk \<times> real \<Rightarrow> ContextHit" where
  "context_hit cap h =
     \<lparr>hit_document_id = chunk_document (fst h), hit_chunk_index = chunk_ordinal (fst h),
      score = snd h, preview = preview_of cap (chunk_text (fst h))\<rparr>"

text \<open>
  Modelled from the spec: the retrieval step of \<open>answer\<close> (4.2), of which the sources have
  no code. It is the retrieval of \<open>search\<close>, so the empty index gives no hit rather than
  an error.
\<close>

definition retrieve ::
  "'v capabilities \<Rightarrow> 'v Chunk list \<Rightarrow> string \<Rightarrow> nat \<Rightarrow> error + ('v Chunk \<times> real) list" where
  "retrieve cap cs q k =
     (case nearest cap cs q k of
        Inl EmptyIndexError \<Rightarrow> Inr []
      | Inl e \<Rightarrow> Inl e
      | Inr hits \<Rightarrow> Inr hits)"

text \<open>
  Modelled from the spec: the bounded context window of \<open>answer\<close> (4.2), of which the
  sources have no code. The hits are taken in rank order for as long as the total size
  stays within \<open>max_tokens\<close>.
\<close>

fun context_window ::
  "'v capabilities \<Rightarrow> nat \<Rightarrow> ('v Chunk \<times> real) list \<Rightarrow> (Citation \<times> string) list" where
  "context_window cap budget [] = []"
| "context_window cap budget (h # hs) =
     (let n = token_count cap (chunk_text (fst h))
      in if n \<le> budget
         then (chunk_key (fst h), chunk_text (fst h)) # context_window cap (budget - n) hs
         else [])"

text \<open>
  Modelled from the spec: the generation step of \<open>answer\<close> (4.2, 7), of which the sources
  have no code, failing with \<open>GenerationUnavailableError\<close> when the LLM is unreachable.
\<close>

definition generate ::
  "'v capabilities \<Rightarrow> string \<Rightarrow> (Citation \<times> string) list \<Rightarrow> nat \<Rightarrow>
     error + (string \<times> Citation list)" where
  "generate cap q ctx max_tokens =
     (case llm cap q ctx max_tokens of
        None \<Rightarrow> Inl GenerationUnavailableError
      | Some out \<Rightarrow> Inr out)"

text \<open>
  Modelled from the spec: \<open>answer(query, k, max_tokens)\<close> (4.2, 7, 8), of which the sources
  have no code. Citations of the LLM to chunks that are not in the context are
  stripped; when generation is unavailable the operation degrades to the hits alone,
  with no answer field.
\<close>

definition answer ::
  "'v capabilities \<Rightarrow> 'v Chunk list \<Rightarrow> string \<Rightarrow> nat \<Rightarrow> nat \<Rightarrow> error + QAResponse" where
  "answer cap cs q k max_tokens =
     (case retrieve cap cs q k of
        Inl e \<Rightarrow> Inl e
      | Inr hits \<Rightarrow>
          (let ctx = context_window cap max_tokens hits;
               hs = map (context_hit cap) hits
           in case generate cap q ctx max_tokens of
                Inl GenerationUnavailableError \<Rightarrow>
                  Inr \<lparr>qa_answer = None, qa_citations = None, qa_hits = Some hs\<rparr>
              | Inl e \<Rightarrow> Inl e
              | Inr out \<Rightarrow>
                  Inr \<lparr>qa_answer = Some (fst out),
                       qa_citations = Some (filter (\<lambda>c. c \<in> set (map fst ctx)) (snd out)),
                       qa_hits = Some hs\<rparr>))"

text \<open>The citations and the hits a response carries (none when the field is absent).\<close>

definition citations_of :: "QAResponse \<Rightarrow> Citation list" where
  "citations_of r = (case qa_citations r of None \<Rightarrow> [] | Some cs \<Rightarrow> cs)"

definition hits_of :: "QAResponse \<Rightarrow> ContextHit list" where
  "hits_of r = (case qa_hits r of None \<Rightarrow> [] | Some hs \<Rightarrow> hs)"

section \<open>HTTP requests and the effects of an event handler\<close>

text \<open>
  A request as a page passes it to \<open>fetch\<close>: method, URL, headers and body. A JSON body is
  the object handed to \<open>JSON.stringify\<close>, with its fields in source order; a form body is
  the \<open>FormData\<close> built by the upload page.
\<close>

datatype json = JStr string | JNum int | JObj "(string \<times> json) list"

datatype File = File string "nat list"

datatype http_method = GET | POST

datatype body = NoBody | JsonBody json | FormBody "(string \<times> File) list"

record request =
  req_method :: http_method
  req_url :: string
  req_headers :: "(string \<times> string) list"
  req_body :: body

text \<open>
  What a \<open>catch\<close> clause receives: an \<open>Error\<close> with its message, or some other value.
  The outcome of \<open>fetch\<close>: the promise is rejected, or there is a response with its \<open>ok\<close>
  flag, status code and status text, and \<open>response.json()\<close> either throws or gives the
  payload, typed by the interface the page declares for it.
\<close>

datatype thrown = JsError string | NonError

datatype 'a fetch_result = Rejected thrown | Response bool nat string "thrown + 'a"

text \<open>Decimal notation of a number, as string concatenation and templates produce it.\<close>

fun show_nat :: "nat \<Rightarrow> string" where
  "show_nat n =
     (if n < 10 then [''0123456789'' ! n]
      else show_nat (n div 10) @ [''0123456789'' ! (n mod 10)])"

definition show_int :: "int \<Rightarrow> string" where
  "show_int i = (if i < 0 then CHR ''-'' # show_nat (nat (- i)) else show_nat (nat i))"

text \<open>
  The status lines of the upload and ingest pages, one constructor per message of the
  source: the empty string, \<open>Uploading...\<close>, \<open>Queued for parsing (doc #id)\<close>, the polled
  \<open>Status: s - chunks: n\<close>, \<open>Ingesting...\<close>, the success line of an ingestion with its
  \<open>job\<close> and \<open>source\<close> fields, the error line with its message, and the line for an
  unreachable API.
\<close>

datatype status_msg =
  NoStatus
| Uploading
| QueuedForParsing int
| StatusChunks string int
| Ingesting
| IngestQueued "string option" "string option"
| IngestError string
| IngestNoConnection

text \<open>The home page's view of the API: the interfaces \<open>HealthResponse\<close> and \<open>ApiStatus\<close>.\<close>

record HealthResponse =
  h_status :: string
  h_timestamp :: string
  h_version :: string
  h_environment :: string

record ApiStatus =
  isLoading :: bool
  isConnected :: bool
  api_data :: "HealthResponse option"
  api_error :: "string option"

text \<open>
  An event handler is modelled by the list of effects it performs, in order: the call
  \<open>e.preventDefault()\<close>, a \<open>fetch\<close>, a \<open>setTimeout(poll, ms)\<close>, or a call of a state setter.
  \<open>SetApiStatusLoading\<close> is the functional update
  \<open>prev => ({...prev, isLoading: true, error: null})\<close>.
\<close>

datatype effect =
  PreventDefault
| Fetch request
| SetTimeoutPoll nat
| SetLoading bool
| SetError string
| SetResults "SearchResponse option"
| SetAnswer string
| SetCitations "Citation list"
| SetHits "ContextHit list"
| SetStatus status_msg
| SetDocId int
| SetUrl string
| SetApiStatusLoading
| SetApiStatus ApiStatus

fun is_fetch :: "effect \<Rightarrow> bool" where
  "is_fetch (Fetch r) = True"
| "is_fetch e = False"

fun is_setter :: "effect \<Rightarrow> bool" where
  "is_setter PreventDefault = False"
| "is_setter (Fetch r) = False"
| "is_setter (SetTimeoutPoll n) = False"
| "is_setter e = True"

definition fetches :: "effect list \<Rightarrow> request list" where
  "fetches es = concat (map (\<lambda>e. case e of Fetch r \<Rightarrow> [r] | _ \<Rightarrow> []) es)"

section \<open>The search page\<close>

record search_state =
  s_query :: string
  s_results :: "SearchResponse option"
  s_loading :: bool
  s_error :: string

fun search_apply :: "search_state \<Rightarrow> effect \<Rightarrow> search_state" where
  "search_apply st (SetLoading b) = st\<lparr>s_loading := b\<rparr>"
| "search_apply st (SetError m) = st\<lparr>s_error := m\<rparr>"
| "search_apply st (SetResults r) = st\<lparr>s_results := r\<rparr>"
| "search_apply st e = st"

text \<open>
  \<open>handleSearch\<close>: a blank query returns at once; otherwise the request is sent, a response
  that is not \<open>ok\<close> throws \<open>Search failed: statusText\<close>, the payload becomes the results,
  the \<open>catch\<close> clause stores the message and clears the results, and \<open>finally\<close> ends the
  loading state. \<open>api\<close> is \<open>process.env.NEXT_PUBLIC_API_URL\<close>.
\<close>

definition search_request :: "string \<Rightarrow> string \<Rightarrow> request" where
  "search_request api q =
     \<lparr>req_method = POST, req_url = api @ ''/search'',
      req_headers = [(''Content-Type'', ''application/json'')],
      req_body = JsonBody (JObj [(''query'', JStr (trim q)), (''k'', JNum 10)])\<rparr>"

definition search_catch :: "thrown \<Rightarrow> effect list" where
  "search_catch err =
     [SetError (case err of JsError m \<Rightarrow> m | NonError \<Rightarrow> ''Search failed''), SetResults None]"

definition handleSearch ::
  "string \<Rightarrow> (request \<Rightarrow> SearchResponse fetch_result) \<Rightarrow> search_state \<Rightarrow> effect list" where
  "handleSearch api fetch st =
     (if trim (s_query st) = [] then [PreventDefault]
      else
        [PreventDefault, SetLoading True, SetError [], Fetch (search_request api (s_query st))] @
        (case fetch (search_request api (s_query st)) of
           Rejected err \<Rightarrow> search_catch err
         | Response ok code status_text payload \<Rightarrow>
             if \<not> ok then search_catch (JsError (''Search failed: '' @ status_text))
             else (case payload of
                     Inl err \<Rightarrow> search_catch err
                   | Inr data \<Rightarrow> [SetResults (Some data)])) @
        [SetLoading False])"

text \<open>
  What the page renders below the form: the error box when \<open>error\<close> is not empty; when
  there are results, the empty-result message for \<open>total_results === 0\<close> and the list
  of results otherwise; the instructions when there are no results and nothing loads.
\<close>

datatype search_panel =
  ErrorMessage string
| NoResultsFound
| ResultList "ChunkResult list"
| Instructions

definition SearchPage :: "search_state \<Rightarrow> search_panel list" where
  "SearchPage st =
     (if s_error st \<noteq> [] then [ErrorMessage (s_error st)] else []) @
     (case s_results st of
        None \<Rightarrow> []
      | Some r \<Rightarrow> [if total_results r = 0 then NoResultsFound else ResultList (sr_results r)]) @
     (if s_results st = None \<and> \<not> s_loading st then [Instructions] else [])"

section \<open>The chat page\<close>

record chat_state =
  c_query :: string
  c_loading :: bool
  c_answer :: string
  c_citations :: "Citation list"
  c_hits :: "ContextHit list"
  c_error :: string

fun chat_apply :: "chat_state \<Rightarrow> effect \<Rightarrow> chat_state" where
  "chat_apply st (SetLoading b) = st\<lparr>c_loading := b\<rparr>"
| "chat_apply st (SetError m) = st\<lparr>c_error := m\<rparr>"
| "chat_apply st (SetAnswer a) = st\<lparr>c_answer := a\<rparr>"
| "chat_apply st (SetCitations cs) = st\<lparr>c_citations := cs\<rparr>"
| "chat_apply st (SetHits hs) = st\<lparr>c_hits := hs\<rparr>"
| "chat_apply st e = st"

definition qa_request :: "string \<Rightarrow> string \<Rightarrow> request" where
  "qa_request api q =
     \<lparr>req_method = POST, req_url = api @ ''/qa'',
      req_headers = [(''Content-Type'', ''application/json'')],
      req_body = JsonBody (JObj [(''query'', JStr (trim q)), (''k'', JNum 6),
                                  (''max_tokens'', JNum 384)])\<rparr>"

definition ask_catch :: "thrown \<Rightarrow> effect list" where
  "ask_catch err =
     [SetError (case err of JsError m \<Rightarrow> m | NonError \<Rightarrow> ''Failed to get answer'')]"

text \<open>
  \<open>ask\<close>: returns at once on a blank query or while a question is loading. The three
  fields of the payload are read as \<open>data.answer\<close>, \<open>data.citations\<close> and \<open>data.hits\<close>, each
  followed by \<open>||\<close> and a default (the empty string, the empty array): an absent field
  gives the default, and so does the empty answer, which is falsy too.
\<close>

definition ask ::
  "string \<Rightarrow> (request \<Rightarrow> QAResponse fetch_result) \<Rightarrow> chat_state \<Rightarrow> effect list" where
  "ask api fetch st =
     (if trim (c_query st) = [] \<or> c_loading st then [PreventDefault]
      else
        [PreventDefault, SetLoading True, SetError [], SetAnswer [], SetCitations [], SetHits [],
         Fetch (qa_request api (c_query st))] @
        (case fetch (qa_request api (c_query st)) of
           Rejected err \<Rightarrow> ask_catch err
         | Response ok code status_text payload \<Rightarrow>
             if \<not> ok then ask_catch (JsError (''Request failed: '' @ status_text))
             else (case payload of
                     Inl err \<Rightarrow> ask_catch err
                   | Inr data \<Rightarrow>
                       [SetAnswer (case qa_answer data of None \<Rightarrow> [] | Some a \<Rightarrow> a),
                        SetCitations (case qa_citations data of None \<Rightarrow> [] | Some cs \<Rightarrow> cs),
                        SetHits (case qa_hits data of None \<Rightarrow> [] | Some hs \<Rightarrow> hs)])) @
        [SetLoading False])"

section \<open>The ingest page\<close>

record ingest_state =
  i_url :: string
  i_source :: string
  i_status :: status_msg
  i_loading :: bool

fun ingest_apply :: "ingest_state \<Rightarrow> effect \<Rightarrow> ingest_state" where
  "ingest_apply st (SetLoading b) = st\<lparr>i_loading := b\<rparr>"
| "ingest_apply st (SetStatus m) = st\<lparr>i_status := m\<rparr>"
| "ingest_apply st (SetUrl u) = st\<lparr>i_url := u\<rparr>"
| "ingest_apply st e = st"

text \<open>The payload of \<open>POST /ingest\<close> as the page reads it: \<open>job\<close>, \<open>source\<close>, \<open>message\<close>.\<close>

record IngestResponse =
  ing_job :: "string option"
  ing_source :: "string option"
  ing_message :: "string option"

definition ingest_request :: "string \<Rightarrow> string \<Rightarrow> string \<Rightarrow> request" where
  "ingest_request api source url =
     \<lparr>req_method = POST, req_url = api @ ''/ingest'',
      req_headers = [(''Content-Type'', ''application/json'')],
      req_body = JsonBody (JObj [(''source'', JStr source), (''url'', JStr url)])\<rparr>"

text \<open>
  \<open>handleSubmit\<close>: returns at once on the empty URL (the URL is not trimmed). The payload is
  read before \<open>res.ok\<close> is looked at, and an absent or empty \<open>data.message\<close> is replaced by
  \<open>Failed to ingest\<close>.
\<close>

definition handleSubmit ::
  "string \<Rightarrow> (request \<Rightarrow> IngestResponse fetch_result) \<Rightarrow> ingest_state \<Rightarrow> effect list" where
  "handleSubmit api fetch st =
     (if i_url st = [] then [PreventDefault]
      else
        [PreventDefault, SetLoading True, SetStatus Ingesting,
         Fetch (ingest_request api (i_source st) (i_url st))] @
        (case fetch (ingest_request api (i_source st) (i_url st)) of
           Rejected err \<Rightarrow> [SetStatus IngestNoConnection]
         | Response ok code status_text payload \<Rightarrow>
             (case payload of
                Inl err \<Rightarrow> [SetStatus IngestNoConnection]
              | Inr data \<Rightarrow>
                  if ok then [SetStatus (IngestQueued (ing_job data) (ing_source data)), SetUrl []]
                  else [SetStatus (IngestError
                          (case ing_message data of
                             None \<Rightarrow> ''Failed to ingest''
                           | Some m \<Rightarrow> if m = [] then ''Failed to ingest'' else m))])) @
        [SetLoading False])"

section \<open>The upload page\<close>

record upload_state =
  u_file :: "File option"
  u_status :: status_msg
  u_docId :: "int option"

fun upload_apply :: "upload_state \<Rightarrow> effect \<Rightarrow> upload_state" where
  "upload_apply st (SetStatus m) = st\<lparr>u_status := m\<rparr>"
| "upload_apply st (SetDocId d) = st\<lparr>u_docId := Some d\<rparr>"
| "upload_apply st e = st"

text \<open>
  The payloads the page reads: \<open>document_id\<close> of \<open>POST /documents\<close>, and \<open>status\<close> and
  \<open>chunks\<close> of \<open>GET /documents/id\<close>.
\<close>

record UploadResponse =
  up_document_id :: int

record DocumentStatus =
  doc_status :: string
  doc_chunks :: int

definition upload_request :: "string \<Rightarrow> File \<Rightarrow> request" where
  "upload_request api f =
     \<lparr>req_method = POST, req_url = api @ ''/documents'', req_headers = [],
      req_body = FormBody [(''file'', f)]\<rparr>"

definition document_request :: "string \<Rightarrow> int \<Rightarrow> request" where
  "document_request api document_id =
     \<lparr>req_method = GET, req_url = api @ ''/documents/'' @ show_int document_id,
      req_headers = [], req_body = NoBody\<rparr>"

text \<open>
  \<open>onSubmit\<close> has no \<open>try\<close>: a rejected \<open>fetch\<close> or a payload that does not parse ends the
  handler there. It does not look at \<open>res.ok\<close>. Its last step schedules the first poll.
\<close>

definition onSubmit ::
  "string \<Rightarrow> (request \<Rightarrow> UploadResponse fetch_result) \<Rightarrow> upload_state \<Rightarrow> effect list" where
  "onSubmit api fetch st =
     (case u_file st of
        None \<Rightarrow> [PreventDefault]
      | Some f \<Rightarrow>
          [PreventDefault, SetStatus Uploading, Fetch (upload_request api f)] @
          (case fetch (upload_request api f) of
             Rejected err \<Rightarrow> []
           | Response ok code status_text payload \<Rightarrow>
               (case payload of
                  Inl err \<Rightarrow> []
                | Inr data \<Rightarrow>
                    [SetDocId (up_document_id data),
                     SetStatus (QueuedForParsing (up_document_id data)),
                     SetTimeoutPoll 1500])))"

text \<open>
  \<open>poll\<close>: one run of the status poll. It fetches the document, shows its status and
  chunk count, and returns when the status is \<open>parsed\<close>, \<open>error\<close> or \<open>parsed_empty\<close>;
  otherwise it schedules itself again after 1500 ms.
\<close>

definition poll ::
  "string \<Rightarrow> (request \<Rightarrow> DocumentStatus fetch_result) \<Rightarrow> int \<Rightarrow> effect list" where
  "poll api fetch document_id =
     Fetch (document_request api document_id) #
     (case fetch (document_request api document_id) of
        Rejected err \<Rightarrow> []
      | Response ok code status_text payload \<Rightarrow>
          (case payload of
             Inl err \<Rightarrow> []
           | Inr j \<Rightarrow>
               SetStatus (StatusChunks (doc_status j) (doc_chunks j)) #
               (if doc_status j = ''parsed'' \<or> doc_status j = ''error'' \<or>
                   doc_status j = ''parsed_empty''
                then []
                else [SetTimeoutPoll 1500])))"

text \<open>
  The polling over time: each run of \<open>poll\<close> is answered by the next status the server
  reports, and a run that has scheduled a timeout is followed by the next run. The list
  is the sequence of statuses the server reports for as long as it is watched.
\<close>

definition ok_response :: "'a \<Rightarrow> 'a fetch_result" where
  "ok_response data = Response True 200 ''OK'' (Inr data)"

fun poll_loop :: "string \<Rightarrow> int \<Rightarrow> DocumentStatus list \<Rightarrow> effect list" where
  "poll_loop api document_id [] = []"
| "poll_loop api document_id (j # js) =
     (let es = poll api (\<lambda>r. ok_response j) document_id
      in es @ (if SetTimeoutPoll 1500 \<in> set es then poll_loop api document_id js else []))"

section \<open>The home page\<close>

definition health_request :: request where
  "health_request =
     \<lparr>req_method = GET, req_url = ''http://localhost:8000/health'',
      req_headers = [(''Content-Type'', ''application/json'')], req_body = NoBody\<rparr>"

definition health_failed :: "thrown \<Rightarrow> ApiStatus" where
  "health_failed err =
     \<lparr>isLoading = False, isConnected = False, api_data = None,
      api_error = Some (case err of JsError m \<Rightarrow> m | NonError \<Rightarrow> ''Unknown error occurred'')\<rparr>"

definition fetchApiHealth :: "(request \<Rightarrow> HealthResponse fetch_result) \<Rightarrow> effect list" where
  "fetchApiHealth fetch =
     [SetApiStatusLoading, Fetch health_request] @
     (case fetch health_request of
        Rejected err \<Rightarrow> [SetApiStatus (health_failed err)]
      | Response ok code status_text payload \<Rightarrow>
          if \<not> ok
          then [SetApiStatus (health_failed (JsError (''HTTP error! status: '' @ show_nat code)))]
          else (case payload of
                  Inl err \<Rightarrow> [SetApiStatus (health_failed err)]
                | Inr data \<Rightarrow>
                    [SetApiStatus \<lparr>isLoading = False, isConnected = True,
                                   api_data = Some data, api_error = None\<rparr>]))"

fun home_apply :: "ApiStatus \<Rightarrow> effect \<Rightarrow> ApiStatus" where
  "home_apply st SetApiStatusLoading = st\<lparr>isLoading := True, api_error := None\<rparr>"
| "home_apply st (SetApiStatus a) = a"
| "home_apply st e = st"

text \<open>
  The details the status card shows once there is data: the environment, the version,
  and under \<open>Last Updated\<close> the value of \<open>new Date(timestamp).toLocaleString()\<close>. That
  conversion is done by the JavaScript runtime and depends on its locale and time zone,
  so it is a parameter, \<open>toLocaleString\<close>, from the timestamp of the response to the
  text shown. The \<open>status\<close> field of the response is not read.
\<close>

definition api_details :: "(string \<Rightarrow> string) \<Rightarrow> ApiStatus \<Rightarrow> (string \<times> string) list" where
  "api_details toLocaleString st =
     (case api_data st of
        None \<Rightarrow> []
      | Some d \<Rightarrow>
          [(''Environment'', h_environment d), (''Version'', h_version d),
           (''Last Updated'', toLocaleString (h_timestamp d))])"

section \<open>Highlighting the query in a result\<close>

text \<open>
  \<open>highlightText\<close> builds the pattern \<open>(t1|t2|...)\<close> from the pieces of the trimmed query
  between single spaces and replaces every match, found with the flags \<open>g\<close> and \<open>i\<close>, by
  the match wrapped in a \<open>mark\<close> element.

  The regular expressions modelled are those whose alternatives are made of literal
  characters: a pattern of the form \<open>(...)\<close> with no syntax character between the
  parentheses other than \<open>|\<close>. For any other pattern the JavaScript engine gives the
  characters a meaning of their own or throws a \<open>SyntaxError\<close>; the model answers \<open>None\<close>
  there and says nothing about the result.
\<close>

definition regex_syntax_chars :: "char list" where
  "regex_syntax_chars =
     [CHR ''^'', CHR ''$'', CHR 0x5C, CHR ''.'', CHR ''*'', CHR ''+'', CHR ''?'', CHR ''('',
      CHR '')'', CHR ''['', CHR '']'', CHR ''{'', CHR ''}'', CHR ''|'']"

definition RegExp_alternatives :: "string \<Rightarrow> string list option" where
  "RegExp_alternatives p =
     (case p of
        [] \<Rightarrow> None
      | c # rest \<Rightarrow>
          if c = CHR ''('' \<and> rest \<noteq> [] \<and> last rest = CHR '')'' \<and>
             list_all (\<lambda>x. x = CHR ''|'' \<or> x \<notin> set regex_syntax_chars) (butlast rest)
          then Some (split_on (CHR ''|'') (butlast rest))
          else None)"

text \<open>
  The flag \<open>i\<close> compares characters after \<open>Canonicalize\<close>, which maps a code unit to its
  upper case: below 256 that moves \<open>a\<close> to \<open>z\<close> and the accented lower-case letters
  (224 to 254 but the division sign 247) down by 32 and leaves every other character
  as it is, or maps it to a code unit above 255 that is the image of no other
  character below 256.
\<close>

definition canonicalize :: "char \<Rightarrow> char" where
  "canonicalize c =
     (let n = of_char c :: nat
      in if (97 \<le> n \<and> n \<le> 122) \<or> (224 \<le> n \<and> n \<le> 254 \<and> n \<noteq> 247)
         then char_of (n - 32) else c)"

text \<open>An alternative matches at the start of a text when it is a prefix of it, case ignored.\<close>

fun match_prefix :: "string \<Rightarrow> string \<Rightarrow> bool" where
  "match_prefix [] s = True"
| "match_prefix (a # as) [] = False"
| "match_prefix (a # as) (c # cs) = (canonicalize a = canonicalize c \<and> match_prefix as cs)"

text \<open>Alternatives are tried in order: the length of the match of the first that matches.\<close>

fun first_match :: "string list \<Rightarrow> string \<Rightarrow> nat option" where
  "first_match [] s = None"
| "first_match (a # as) s = (if match_prefix a s then Some (length a) else first_match as s)"

text \<open>
  The global replacement scans the text from the left. Where no alternative matches,
  the character is copied. A match that is not empty is wrapped and the scan goes on
  behind it. An empty match is wrapped too, and the scan steps over one character,
  which is copied; at the end of the text an empty alternative matches once more.
\<close>

datatype seg = Plain char | Mark string

fun segments :: "string list \<Rightarrow> string \<Rightarrow> seg list" where
  "segments alts [] = (case first_match alts [] of None \<Rightarrow> [] | Some n \<Rightarrow> [Mark []])"
| "segments alts (c # cs) =
     (case first_match alts (c # cs) of
        None \<Rightarrow> Plain c # segments alts cs
      | Some 0 \<Rightarrow> Mark [] # Plain c # segments alts cs
      | Some (Suc n) \<Rightarrow> Mark (c # take n cs) # segments alts (drop n cs))"

definition mark_open :: string where
  \<open>mark_open = ''<mark class="bg-yellow-200 px-1 rounded">''\<close>

definition mark_close :: string where
  "mark_close = ''</mark>''"

fun render_seg :: "seg \<Rightarrow> string" where
  "render_seg (Plain c) = [c]"
| "render_seg (Mark m) = mark_open @ m @ mark_close"

definition render :: "seg list \<Rightarrow> string" where
  "render segs = concat (map render_seg segs)"

definition highlightText :: "string \<Rightarrow> string \<Rightarrow> string option" where
  "highlightText s query =
     (if trim query = [] then Some s
      else (case RegExp_alternatives
                   (''('' @ join_with (CHR ''|'') (split_on (CHR '' '') (trim query)) @ '')'') of
              None \<Rightarrow> None
            | Some alts \<Rightarrow> Some (render (segments alts s))))"

text \<open>
  The reading of the highlighted text back from its segments: the characters of the
  text, the marked pieces, and the runs of unmarked characters between marks.
\<close>

fun seg_chars :: "seg \<Rightarrow> string" where
  "seg_chars (Plain c) = [c]"
| "seg_chars (Mark m) = m"

definition marks :: "seg list \<Rightarrow> string list" where
  "marks segs = concat (map (\<lambda>g. case g of Plain c \<Rightarrow> [] | Mark m \<Rightarrow> [m]) segs)"

fun plain_runs :: "seg list \<Rightarrow> string list" where
  "plain_runs [] = [[]]"
| "plain_runs (Plain c # segs) =
     (case plain_runs segs of r # rs \<Rightarrow> (c # r) # rs | [] \<Rightarrow> [[c]])"
| "plain_runs (Mark m # segs) = [] # plain_runs segs"

text \<open>A token occurs in a text when it matches, case ignored, at some position of it.\<close>

fun occurs :: "string \<Rightarrow> string \<Rightarrow> bool" where
  "occurs t [] = match_prefix t []"
| "occurs t (c # cs) = (match_prefix t (c # cs) \<or> occurs t cs)"

text \<open>
  The highlighting as the specification words it: the tokens of the query are its
  pieces between white space, and their occurrences in the text are wrapped.
\<close>

fun tokens_from :: "string \<Rightarrow> string \<Rightarrow> string list" where
  "tokens_from cur [] = (if cur = [] then [] else [cur])"
| "tokens_from cur (c # cs) =
     (if is_ws c then (if cur = [] then tokens_from [] cs else cur # tokens_from [] cs)
      else tokens_from (cur @ [c]) cs)"

definition ws_tokens :: "string \<Rightarrow> string list" where
  "ws_tokens s = tokens_from [] s"

definition spec_highlightText :: "string \<Rightarrow> string \<Rightarrow> string" where
  "spec_highlightText s query =
     (if trim query = [] then s else render (segments (ws_tokens query) s))"

section \<open>The state of a page after a handler\<close>

text \<open>The state a page is in once the setters a handler has called have taken effect.\<close>

definition search_run :: "search_state \<Rightarrow> effect list \<Rightarrow> search_state" where
  "search_run st es = foldl search_apply st es"

definition chat_run :: "chat_state \<Rightarrow> effect list \<Rightarrow> chat_state" where
  "chat_run st es = foldl chat_apply st es"

definition ingest_run :: "ingest_state \<Rightarrow> effect list \<Rightarrow> ingest_state" where
  "ingest_run st es = foldl ingest_apply st es"

definition upload_run :: "upload_state \<Rightarrow> effect list \<Rightarrow> upload_state" where
  "upload_run st es = foldl upload_apply st es"

definition home_run :: "ApiStatus \<Rightarrow> effect list \<Rightarrow> ApiStatus" where
  "home_run st es = foldl home_apply st es"

section \<open>Sample inputs\<close>

text \<open>
  A small index for the examples: three chunks of two documents, the second one not
  embedded. Texts are embedded as their length and compared by distance; the sample
  LLM cites one chunk of the context and one chunk that does not exist.
\<close>

definition sample_chunks :: "int Chunk list" where
  "sample_chunks =
     [\<lparr>chunk_id = 1, chunk_document = 7, chunk_ordinal = 0, chunk_text = ''alpha'',
       chunk_embedding = Some 5\<rparr>,
      \<lparr>chunk_id = 2, chunk_document = 7, chunk_ordinal = 1, chunk_text = ''beta'',
       chunk_embedding = None\<rparr>,
      \<lparr>chunk_id = 3, chunk_document = 8, chunk_ordinal = 0, chunk_text = ''gam'',
       chunk_embedding = Some 3\<rparr>]"

definition sample_llm ::
  "string \<Rightarrow> (Citation \<times> string) list \<Rightarrow> nat \<Rightarrow> (string \<times> Citation list) option" where
  "sample_llm q ctx max_tokens =
     Some (''yes'', [\<lparr>cit_document_id = 8, cit_chunk_index = 0\<rparr>,
                     \<lparr>cit_document_id = 99, cit_chunk_index = 4\<rparr>])"

definition llm_down ::
  "string \<Rightarrow> (Citation \<times> string) list \<Rightarrow> nat \<Rightarrow> (string \<times> Citation list) option" where
  "llm_down q ctx max_tokens = None"

definition sample_cap :: "int capabilities" where
  "sample_cap =
     \<lparr>embedder = (\<lambda>s. int (length s)),
      similarity = (\<lambda>a b. - \<bar>real_of_int (a - b)\<bar>),
      filename_of = (\<lambda>d. ''notes.txt''),
      token_count = length,
      preview_of = take 3,
      llm = sample_llm\<rparr>"

definition sample_cap_down :: "int capabilities" where
  "sample_cap_down = sample_cap\<lparr>llm := llm_down\<rparr>"

text \<open>
  A sample of the runtime's date conversion: what \<open>new Date(t).toLocaleString()\<close> gives
  for the one timestamp of the examples in the locale \<open>en-US\<close> and the time zone UTC, and
  for a text that is not a date.
\<close>

definition sample_toLocaleString :: "string \<Rightarrow> string" where
  "sample_toLocaleString t =
     (if t = ''2025-01-01T00:00:00Z'' then ''1/1/2025, 12:00:00 AM'' else ''Invalid Date'')"

section \<open>Properties of the retrieval and answer service\<close>

lemma nearest_cases:
  "nearest cap cs q k = Inl EmptyIndexError \<or> (\<exists>hits. nearest cap cs q k = Inr hits)"
  by (simp add: nearest_def Let_def)

lemma nearest_sorted:
  assumes "nearest cap cs q k = Inr hits"
  shows "sorted_wrt (\<lambda>a b. snd b \<le> snd a) hits"
proof -
  define scored where
    "scored = map (\<lambda>(c, v). (c, similarity cap (embedder cap q) v)) (embedded_chunks cs)"
  have eq: "hits = take k (sort_key (\<lambda>(c, s). - s) scored)"
    using assms by (auto simp: nearest_def Let_def scored_def split: if_splits)
  have "sorted (map (\<lambda>(c, s). - s) (sort_key (\<lambda>(c, s). - s) scored))"
    by (rule sorted_sort_key)
  then have "sorted_wrt (\<lambda>a b. snd b \<le> snd a) (sort_key (\<lambda>(c, s). - s) scored)"
    by (simp add: sorted_wrt_map case_prod_unfold)
  then show ?thesis
    unfolding eq by (rule sorted_wrt_take)
qed

lemma nearest_length:
  "nearest cap cs q k = Inr hits \<Longrightarrow>
     length hits \<le> k \<and> length hits \<le> length (embedded_chunks cs)"
  by (auto simp: nearest_def Let_def split: if_splits)

lemma retrieve_total: "\<exists>hits. retrieve cap cs q k = Inr hits"
  using nearest_cases [of cap cs q k] by (auto simp: retrieve_def)

lemma context_window_keys:
  "set (map fst (context_window cap b hits)) \<subseteq> set (map (\<lambda>h. chunk_key (fst h)) hits)"
  by (induction hits arbitrary: b) (auto simp: Let_def)

lemma hit_key_context_hit: "hit_key (context_hit cap h) = chunk_key (fst h)"
  by (simp add: hit_key_def context_hit_def chunk_key_def)

lemma hit_keys:
  "set (map hit_key (map (context_hit cap) hits)) = set (map (\<lambda>h. chunk_key (fst h)) hits)"
  by (simp add: hit_key_context_hit)

lemma answer_cases:
  assumes "retrieve cap cs q k = Inr hits"
  shows "answer cap cs q k mt =
           (case llm cap q (context_window cap mt hits) mt of
              None \<Rightarrow>
                Inr \<lparr>qa_answer = None, qa_citations = None,
                     qa_hits = Some (map (context_hit cap) hits)\<rparr>
            | Some out \<Rightarrow>
                Inr \<lparr>qa_answer = Some (fst out),
                     qa_citations =
                       Some (filter (\<lambda>c. c \<in> set (map fst (context_window cap mt hits))) (snd out)),
                     qa_hits = Some (map (context_hit cap) hits)\<rparr>)"
  using assms by (simp add: answer_def Let_def generate_def split: option.splits)

text \<open>
  C1. Every call of \<open>answer\<close> returns a response; its hits are the hits retrieved by that
  call, and every citation it carries is the (document, chunk index) pair of one of
  those hits: no chunk outside the retrieved set is cited.
\<close>

theorem answer_citations_grounded:
  "\<exists>hits r. retrieve cap cs q k = Inr hits \<and> answer cap cs q k mt = Inr r \<and>
     hits_of r = map (context_hit cap) hits \<and>
     set (citations_of r) \<subseteq> set (map hit_key (hits_of r)) \<and>
     set (citations_of r) \<subseteq> set (map (\<lambda>h. chunk_key (fst h)) hits)"
proof -
  obtain hits where h: "retrieve cap cs q k = Inr hits"
    using retrieve_total by blast
  define ctx where "ctx = context_window cap mt hits"
  have sub: "set (map fst ctx) \<subseteq> set (map (\<lambda>h. chunk_key (fst h)) hits)"
    unfolding ctx_def by (rule context_window_keys)
  show ?thesis
  proof (cases "llm cap q ctx mt")
    case None
    then have "answer cap cs q k mt =
        Inr \<lparr>qa_answer = None, qa_citations = None,
             qa_hits = Some (map (context_hit cap) hits)\<rparr>"
      using answer_cases [OF h, of mt] by (simp add: ctx_def)
    with h show ?thesis
      by (simp add: citations_of_def hits_of_def)
  next
    case (Some out)
    define r where "r = \<lparr>qa_answer = Some (fst out),
        qa_citations = Some (filter (\<lambda>c. c \<in> set (map fst ctx)) (snd out)),
        qa_hits = Some (map (context_hit cap) hits)\<rparr>"
    have a: "answer cap cs q k mt = Inr r"
      using answer_cases [OF h, of mt] Some by (simp add: ctx_def r_def)
    have hs: "hits_of r = map (context_hit cap) hits"
      by (simp add: r_def hits_of_def)
    have "set (citations_of r) \<subseteq> set (map fst ctx)"
      by (auto simp: r_def citations_of_def)
    then have c: "set (citations_of r) \<subseteq> set (map (\<lambda>h. chunk_key (fst h)) hits)"
      using sub by blast
    then have "set (citations_of r) \<subseteq> set (map hit_key (hits_of r))"
      unfolding hs hit_keys .
    with h a hs c show ?thesis by blast
  qed
qed

text \<open>
  C2. Every call of \<open>search\<close> returns a response whose results are ordered by
  non-increasing similarity score, and there are at most as many results as there are
  embedded chunks (and at most \<open>k\<close>), so a \<open>k\<close> above the number of embedded chunks
  returns at most that number.
\<close>

theorem search_sorted_and_bounded:
  "\<exists>r. search cap cs q k = Inr r \<and>
     sorted_wrt (\<lambda>a b. similarity_score b \<le> similarity_score a) (sr_results r) \<and>
     length (sr_results r) \<le> length (embedded_chunks cs) \<and>
     length (sr_results r) \<le> k"
proof (cases "nearest cap cs q k")
  case (Inl e)
  then have "e = EmptyIndexError"
    using nearest_cases [of cap cs q k] by auto
  with Inl show ?thesis
    by (simp add: search_def)
next
  case (Inr hits)
  have "sorted_wrt (\<lambda>a b. similarity_score b \<le> similarity_score a)
          (map (join_metadata cap) hits)"
    using nearest_sorted [OF Inr] by (simp add: sorted_wrt_map join_metadata_def)
  with Inr nearest_length [OF Inr] show ?thesis
    by (simp add: search_def)
qed

text \<open>
  The two operations on the sample index, queried with \<open>abc\<close>: the chunk that is not
  embedded is not found, the nearer chunk comes first, and the citation of the LLM to
  a chunk that was not retrieved is stripped.
\<close>

lemma nearest_sample:
  "nearest sample_cap sample_chunks ''abc'' 5 =
     Inr [(\<lparr>chunk_id = 3, chunk_document = 8, chunk_ordinal = 0, chunk_text = ''gam'',
            chunk_embedding = Some 3\<rparr>, 0),
          (\<lparr>chunk_id = 1, chunk_document = 7, chunk_ordinal = 0, chunk_text = ''alpha'',
            chunk_embedding = Some 5\<rparr>, - 2)]"
  by (simp add: nearest_def sample_cap_def sample_chunks_def embedded_chunks_def
      List.map_filter_def)

lemma search_sample:
  "search sample_cap sample_chunks ''abc'' 5 =
     Inr \<lparr>sr_query = ''abc'',
          sr_results =
            [\<lparr>cr_id = 3, cr_text = ''gam'', cr_chunk_index = 0, cr_document_id = 8,
              cr_filename = ''notes.txt'', similarity_score = 0\<rparr>,
             \<lparr>cr_id = 1, cr_text = ''alpha'', cr_chunk_index = 0, cr_document_id = 7,
              cr_filename = ''notes.txt'', similarity_score = - 2\<rparr>],
          total_results = 2\<rparr>"
  unfolding search_def nearest_sample
  by (simp add: join_metadata_def sample_cap_def)

lemma answer_sample:
  "answer sample_cap sample_chunks ''abc'' 5 100 =
     Inr \<lparr>qa_answer = Some ''yes'',
          qa_citations = Some [\<lparr>cit_document_id = 8, cit_chunk_index = 0\<rparr>],
          qa_hits =
            Some [\<lparr>hit_document_id = 8, hit_chunk_index = 0, score = 0, preview = ''gam''\<rparr>,
                  \<lparr>hit_document_id = 7, hit_chunk_index = 0, score = - 2,
                   preview = ''alp''\<rparr>]\<rparr>"
  unfolding answer_def retrieve_def nearest_sample
  by (simp add: generate_def context_hit_def chunk_key_def sample_cap_def sample_llm_def)

section \<open>Properties of the pages\<close>

lemma trim_hd: "trim s \<noteq> [] \<Longrightarrow> \<not> is_ws (hd (trim s))"
proof -
  assume a: "trim s \<noteq> []"
  define ys where "ys = dropWhile is_ws s"
  have t: "trim s = rev (dropWhile is_ws (rev ys))" by (simp add: trim_def ys_def)
  with a have ne: "ys \<noteq> []" by auto
  obtain zs where zs: "ys = trim s @ zs"
    by (metis t rev_append rev_rev_ident takeWhile_dropWhile_id)
  then have "hd (trim s) = hd ys" using a by simp
  moreover have "\<not> is_ws (hd ys)" using ne unfolding ys_def by (rule hd_dropWhile)
  ultimately show ?thesis by simp
qed

lemma trim_last: "trim s \<noteq> [] \<Longrightarrow> \<not> is_ws (last (trim s))"
proof -
  assume a: "trim s \<noteq> []"
  define ys where "ys = rev (dropWhile is_ws s)"
  have t: "trim s = rev (dropWhile is_ws ys)" by (simp add: trim_def ys_def)
  with a have ne: "dropWhile is_ws ys \<noteq> []" by auto
  have "last (trim s) = hd (dropWhile is_ws ys)" using ne by (simp add: t last_rev)
  then show ?thesis using hd_dropWhile [OF ne] by simp
qed

lemma trim_idem: "trim (trim s) = trim s"
proof (cases "trim s = []")
  case True
  have "trim [] = []" by (simp add: trim_def)
  with True show ?thesis by simp
next
  case False
  have 1: "dropWhile is_ws (trim s) = trim s"
    using False trim_hd [OF False] by (cases "trim s") auto
  have 2: "dropWhile is_ws (rev (trim s)) = rev (trim s)"
    using False trim_last [OF False] by (cases "rev (trim s)") (auto simp: last_rev)
  have "trim (trim s) = rev (dropWhile is_ws (rev (dropWhile is_ws (trim s))))"
    by (simp add: trim_def)
  also have "\<dots> = trim s" by (simp add: 1 2)
  finally show ?thesis .
qed

lemma fetches_handleSearch:
  "fetches (handleSearch api f st) = (if trim (s_query st) = [] then [] else [search_request api (s_query st)])"
  by (auto simp: handleSearch_def fetches_def search_catch_def split: fetch_result.splits sum.splits)

lemma fetch_in_handleSearch:
  "Fetch r \<in> set (handleSearch api f st) \<Longrightarrow> trim (s_query st) \<noteq> [] \<and> r = search_request api (s_query st)"
  by (auto simp: handleSearch_def search_catch_def split: fetch_result.splits sum.splits if_splits)

lemma run_handleSearch_ok:
  "trim (s_query st) \<noteq> [] \<Longrightarrow> f (search_request api (s_query st)) = Response True code stx (Inr d) \<Longrightarrow>
   search_run st (handleSearch api f st) = st\<lparr>s_loading := False, s_error := [], s_results := Some d\<rparr>"
  by (simp add: handleSearch_def search_run_def)

lemma fetches_ask:
  "fetches (ask api f st) =
     (if trim (c_query st) = [] \<or> c_loading st then [] else [qa_request api (c_query st)])"
  by (auto simp: ask_def fetches_def ask_catch_def split: fetch_result.splits sum.splits)

lemma fetch_in_ask:
  "Fetch r \<in> set (ask api f st) \<Longrightarrow>
     trim (c_query st) \<noteq> [] \<and> \<not> c_loading st \<and> r = qa_request api (c_query st)"
  by (auto simp: ask_def ask_catch_def split: fetch_result.splits sum.splits if_splits)

lemma run_ask_ok:
  "trim (c_query st) \<noteq> [] \<Longrightarrow> \<not> c_loading st \<Longrightarrow>
   f (qa_request api (c_query st)) = Response True code stx (Inr d) \<Longrightarrow>
   chat_run st (ask api f st) =
     st\<lparr>c_loading := False, c_error := [],
        c_answer := (case qa_answer d of None \<Rightarrow> [] | Some a \<Rightarrow> a),
        c_citations := (case qa_citations d of None \<Rightarrow> [] | Some cs \<Rightarrow> cs),
        c_hits := (case qa_hits d of None \<Rightarrow> [] | Some hs \<Rightarrow> hs)\<rparr>"
  by (simp add: ask_def chat_run_def)

text \<open>
  C7. Every request the search page sends is the one \<open>POST\<close> to \<open>/search\<close> whose JSON body has
  exactly the fields \<open>query\<close> (the trimmed query, which is not empty) and \<open>k\<close> (10), and a
  payload it receives with an \<open>ok\<close> response becomes the results, with the fields of
  \<open>SearchResponse\<close> and, for each result, of \<open>ChunkResult\<close>.
\<close>

theorem search_request_and_response_shape:
  assumes "Fetch r \<in> set (handleSearch api fetch st)"
  shows "r = \<lparr>req_method = POST, req_url = api @ ''/search'',
               req_headers = [(''Content-Type'', ''application/json'')],
               req_body = JsonBody (JObj [(''query'', JStr (trim (s_query st))), (''k'', JNum 10)])\<rparr> \<and>
         trim (s_query st) \<noteq> [] \<and> trim (trim (s_query st)) = trim (s_query st) \<and>
         fetches (handleSearch api fetch st) = [r] \<and>
         (\<forall>code status_text d. fetch r = Response True code status_text (Inr d) \<longrightarrow>
            s_results (search_run st (handleSearch api fetch st)) = Some d \<and>
            d = \<lparr>sr_query = sr_query d, sr_results = sr_results d,
                 total_results = total_results d\<rparr> \<and>
            list_all (\<lambda>c. c = \<lparr>cr_id = cr_id c, cr_text = cr_text c,
                               cr_chunk_index = cr_chunk_index c,
                               cr_document_id = cr_document_id c, cr_filename = cr_filename c,
                               similarity_score = similarity_score c\<rparr>) (sr_results d))"
proof -
  from assms have ne: "trim (s_query st) \<noteq> []" and r: "r = search_request api (s_query st)"
    using fetch_in_handleSearch by blast+
  have f: "fetches (handleSearch api fetch st) = [r]"
    using ne r by (simp add: fetches_handleSearch)
  have run: "s_results (search_run st (handleSearch api fetch st)) = Some d"
    if "fetch r = Response True code status_text (Inr d)" for code status_text d
    using run_handleSearch_ok [OF ne, of fetch api code status_text d] that r by simp
  show ?thesis
    using ne r f run by (simp add: search_request_def trim_idem list_all_iff)
qed

text \<open>The search for \<open> cats \<close> (with a space on each side) sends the query \<open>cats\<close> with \<open>k = 10\<close>.\<close>

theorem search_request_and_response_shape_witness:
  "fetches (handleSearch ''http://localhost:8000''
      (\<lambda>r. ok_response \<lparr>sr_query = ''cats'', sr_results = [], total_results = 0\<rparr>)
      \<lparr>s_query = '' cats '', s_results = None, s_loading = False, s_error = []\<rparr>) =
     [\<lparr>req_method = POST, req_url = ''http://localhost:8000/search'',
       req_headers = [(''Content-Type'', ''application/json'')],
       req_body = JsonBody (JObj [(''query'', JStr ''cats''), (''k'', JNum 10)])\<rparr>] \<and>
   s_results (search_run
      \<lparr>s_query = '' cats '', s_results = None, s_loading = False, s_error = []\<rparr>
      (handleSearch ''http://localhost:8000''
        (\<lambda>r. ok_response \<lparr>sr_query = ''cats'', sr_results = [], total_results = 0\<rparr>)
        \<lparr>s_query = '' cats '', s_results = None, s_loading = False, s_error = []\<rparr>)) =
     Some \<lparr>sr_query = ''cats'', sr_results = [], total_results = 0\<rparr>"
proof -
  let ?d = "\<lparr>sr_query = ''cats'', sr_results = [], total_results = 0\<rparr>"
  let ?f = "\<lambda>r::request. ok_response ?d"
  let ?st = "\<lparr>s_query = '' cats '', s_results = None, s_loading = False, s_error = []\<rparr>"
  have t: "trim '' cats '' = ''cats''"
    by (simp add: trim_def is_ws_def)
  have "Fetch (search_request ''http://localhost:8000'' '' cats '') \<in>
          set (handleSearch ''http://localhost:8000'' ?f ?st)"
    by (simp add: handleSearch_def t)
  from search_request_and_response_shape [OF this]
  have "fetches (handleSearch ''http://localhost:8000'' ?f ?st) =
          [search_request ''http://localhost:8000'' '' cats '']"
    and "\<forall>code status_text d. ?f (search_request ''http://localhost:8000'' '' cats '') =
            Response True code status_text (Inr d) \<longrightarrow>
          s_results (search_run ?st (handleSearch ''http://localhost:8000'' ?f ?st)) = Some d"
    by blast+
  then show ?thesis
    by (simp add: search_request_def t ok_response_def)
qed

text \<open>
  C8. Every request the chat page sends is the one \<open>POST\<close> to \<open>/qa\<close> whose JSON body has
  exactly the fields \<open>query\<close> (the trimmed query, which is not empty), \<open>k\<close> (6) and
  \<open>max_tokens\<close> (384), and a payload it receives with an \<open>ok\<close> response is read through the
  fields \<open>answer\<close>, \<open>citations\<close> (document and chunk index) and \<open>hits\<close> (document, chunk
  index, score and preview).
\<close>

theorem qa_request_and_response_shape:
  assumes "Fetch r \<in> set (ask api fetch st)"
  shows "r = \<lparr>req_method = POST, req_url = api @ ''/qa'',
               req_headers = [(''Content-Type'', ''application/json'')],
               req_body = JsonBody (JObj [(''query'', JStr (trim (c_query st))), (''k'', JNum 6),
                                           (''max_tokens'', JNum 384)])\<rparr> \<and>
         trim (c_query st) \<noteq> [] \<and> trim (trim (c_query st)) = trim (c_query st) \<and>
         fetches (ask api fetch st) = [r] \<and>
         (\<forall>code status_text d. fetch r = Response True code status_text (Inr d) \<longrightarrow>
            c_answer (chat_run st (ask api fetch st)) = (case qa_answer d of None \<Rightarrow> [] | Some a \<Rightarrow> a) \<and>
            c_citations (chat_run st (ask api fetch st)) = citations_of d \<and>
            c_hits (chat_run st (ask api fetch st)) = hits_of d \<and>
            d = \<lparr>qa_answer = qa_answer d, qa_citations = qa_citations d, qa_hits = qa_hits d\<rparr> \<and>
            list_all (\<lambda>c. c = \<lparr>cit_document_id = cit_document_id c,
                               cit_chunk_index = cit_chunk_index c\<rparr>) (citations_of d) \<and>
            list_all (\<lambda>h. h = \<lparr>hit_document_id = hit_document_id h,
                               hit_chunk_index = hit_chunk_index h, score = score h,
                               preview = preview h\<rparr>) (hits_of d))"
proof -
  from assms have ne: "trim (c_query st) \<noteq> []" and nl: "\<not> c_loading st"
    and r: "r = qa_request api (c_query st)"
    using fetch_in_ask by blast+
  have f: "fetches (ask api fetch st) = [r]"
    using ne nl r by (simp add: fetches_ask)
  have run: "chat_run st (ask api fetch st) =
      st\<lparr>c_loading := False, c_error := [],
         c_answer := (case qa_answer d of None \<Rightarrow> [] | Some a \<Rightarrow> a),
         c_citations := citations_of d, c_hits := hits_of d\<rparr>"
    if "fetch r = Response True code status_text (Inr d)" for code status_text d
    using run_ask_ok [OF ne nl, of fetch api code status_text d] that r
    by (simp add: citations_of_def hits_of_def)
  show ?thesis
    using ne r f run by (simp add: qa_request_def trim_idem list_all_iff)
qed

text \<open>The question \<open>why? \<close> (with a trailing space) sends the query \<open>why?\<close> with \<open>k = 6\<close> and \<open>max_tokens = 384\<close>.\<close>

theorem qa_request_and_response_shape_witness:
  "fetches (ask ''http://localhost:8000''
      (\<lambda>r. ok_response \<lparr>qa_answer = Some ''yes'', qa_citations = Some [], qa_hits = None\<rparr>)
      \<lparr>c_query = ''why? '', c_loading = False, c_answer = [], c_citations = [], c_hits = [],
       c_error = []\<rparr>) =
     [\<lparr>req_method = POST, req_url = ''http://localhost:8000/qa'',
       req_headers = [(''Content-Type'', ''application/json'')],
       req_body = JsonBody (JObj [(''query'', JStr ''why?''), (''k'', JNum 6),
                                   (''max_tokens'', JNum 384)])\<rparr>] \<and>
   c_answer (chat_run
      \<lparr>c_query = ''why? '', c_loading = False, c_answer = [], c_citations = [], c_hits = [],
       c_error = []\<rparr>
      (ask ''http://localhost:8000''
        (\<lambda>r. ok_response \<lparr>qa_answer = Some ''yes'', qa_citations = Some [], qa_hits = None\<rparr>)
        \<lparr>c_query = ''why? '', c_loading = False, c_answer = [], c_citations = [], c_hits = [],
         c_error = []\<rparr>)) = ''yes''"
proof -
  let ?d = "\<lparr>qa_answer = Some ''yes'', qa_citations = Some [], qa_hits = None\<rparr>"
  let ?f = "\<lambda>r::request. ok_response ?d"
  let ?st = "\<lparr>c_query = ''why? '', c_loading = False, c_answer = [], c_citations = [],
     c_hits = [], c_error = []\<rparr>"
  have t: "trim ''why? '' = ''why?''"
    by (simp add: trim_def is_ws_def)
  have "Fetch (qa_request ''http://localhost:8000'' ''why? '') \<in>
          set (ask ''http://localhost:8000'' ?f ?st)"
    by (simp add: ask_def t)
  from qa_request_and_response_shape [OF this]
  have "fetches (ask ''http://localhost:8000'' ?f ?st) =
          [qa_request ''http://localhost:8000'' ''why? '']"
    and "\<forall>code status_text d. ?f (qa_request ''http://localhost:8000'' ''why? '') =
            Response True code status_text (Inr d) \<longrightarrow>
          c_answer (chat_run ?st (ask ''http://localhost:8000'' ?f ?st)) =
            (case qa_answer d of None \<Rightarrow> [] | Some a \<Rightarrow> a)"
    by blast+
  then show ?thesis
    by (simp add: qa_request_def t ok_response_def)
qed

text \<open>
  C9. A submission with a blank query (search, chat), the empty URL (ingest) or no file
  (upload) returns at once: the handler only calls \<open>preventDefault\<close>, so it sends no
  request, calls no setter and leaves the state of the page as it was.
\<close>

theorem blank_submission_returns_at_once:
  "(trim (s_query ss) = [] \<longrightarrow>
      handleSearch api f1 ss = [PreventDefault] \<and> fetches (handleSearch api f1 ss) = [] \<and>
      filter is_setter (handleSearch api f1 ss) = [] \<and>
      search_run ss (handleSearch api f1 ss) = ss) \<and>
   (trim (c_query cs) = [] \<longrightarrow>
      ask api f2 cs = [PreventDefault] \<and> fetches (ask api f2 cs) = [] \<and>
      filter is_setter (ask api f2 cs) = [] \<and>
      chat_run cs (ask api f2 cs) = cs) \<and>
   (i_url gs = [] \<longrightarrow>
      handleSubmit api f3 gs = [PreventDefault] \<and> fetches (handleSubmit api f3 gs) = [] \<and>
      filter is_setter (handleSubmit api f3 gs) = [] \<and>
      ingest_run gs (handleSubmit api f3 gs) = gs) \<and>
   (u_file us = None \<longrightarrow>
      onSubmit api f4 us = [PreventDefault] \<and> fetches (onSubmit api f4 us) = [] \<and>
      filter is_setter (onSubmit api f4 us) = [] \<and>
      upload_run us (onSubmit api f4 us) = us)"
  by (simp add: handleSearch_def ask_def handleSubmit_def onSubmit_def fetches_def
      search_run_def chat_run_def ingest_run_def upload_run_def)

text \<open>The four handlers on a blank input, each with a server that would have answered.\<close>

theorem blank_submission_returns_at_once_witness:
  "handleSearch ''http://localhost:8000''
     (\<lambda>r. ok_response \<lparr>sr_query = [], sr_results = [], total_results = 0\<rparr>)
     \<lparr>s_query = ''   '', s_results = None, s_loading = False, s_error = ''old''\<rparr> = [PreventDefault] \<and>
   ask ''http://localhost:8000''
     (\<lambda>r. ok_response \<lparr>qa_answer = Some ''yes'', qa_citations = None, qa_hits = None\<rparr>)
     \<lparr>c_query = [CHR 0x09, CHR '' ''], c_loading = False, c_answer = ''old'', c_citations = [],
      c_hits = [], c_error = []\<rparr> = [PreventDefault] \<and>
   handleSubmit ''http://localhost:8000''
     (\<lambda>r. ok_response \<lparr>ing_job = Some ''j'', ing_source = Some ''rss'', ing_message = None\<rparr>)
     \<lparr>i_url = [], i_source = ''github'', i_status = NoStatus, i_loading = False\<rparr> = [PreventDefault] \<and>
   onSubmit ''http://localhost:8000''
     (\<lambda>r. ok_response \<lparr>up_document_id = 1\<rparr>)
     \<lparr>u_file = None, u_status = NoStatus, u_docId = None\<rparr> = [PreventDefault]"
proof -
  have t1: "trim ''   '' = []" by (simp add: trim_def is_ws_def)
  have t2: "trim [CHR 0x09, CHR '' ''] = []" by (simp add: trim_def is_ws_def)
  show ?thesis
    using blank_submission_returns_at_once
      [of "\<lparr>s_query = ''   '', s_results = None, s_loading = False, s_error = ''old''\<rparr>"
          "''http://localhost:8000''"
          "\<lambda>r. ok_response \<lparr>sr_query = [], sr_results = [], total_results = 0\<rparr>"
          "\<lparr>c_query = [CHR 0x09, CHR '' ''], c_loading = False, c_answer = ''old'',
            c_citations = [], c_hits = [], c_error = []\<rparr>"
          "\<lambda>r. ok_response \<lparr>qa_answer = Some ''yes'', qa_citations = None, qa_hits = None\<rparr>"
          "\<lparr>i_url = [], i_source = ''github'', i_status = NoStatus, i_loading = False\<rparr>"
          "\<lambda>r. ok_response \<lparr>ing_job = Some ''j'', ing_source = Some ''rss'', ing_message = None\<rparr>"
          "\<lparr>u_file = None, u_status = NoStatus, u_docId = None\<rparr>"
          "\<lambda>r. ok_response \<lparr>up_document_id = 1\<rparr>"]
    by (simp add: t1 t2)
qed

lemma nearest_nonempty:
  assumes "nearest cap cs q k = Inr hits" "0 < k"
  shows "hits \<noteq> []"
proof -
  define scored where
    "scored = map (\<lambda>(c, v). (c, similarity cap (embedder cap q) v)) (embedded_chunks cs)"
  have ne: "scored \<noteq> []" and eq: "hits = take k (sort_key (\<lambda>(c, s). - s) scored)"
    using assms(1) by (auto simp: nearest_def Let_def scored_def split: if_splits)
  have "length hits = min k (length scored)"
    unfolding eq by simp
  with ne assms(2) show ?thesis
    by (cases scored) auto
qed

lemma retrieve_nonempty:
  assumes "retrieve cap cs q k = Inr hits" "embedded_chunks cs \<noteq> []" "0 < k"
  shows "hits \<noteq> []"
proof -
  have "nearest cap cs q k \<noteq> Inl EmptyIndexError"
    using assms(2) by (simp add: nearest_def Let_def)
  then obtain hs where n: "nearest cap cs q k = Inr hs"
    using nearest_cases [of cap cs q k] by auto
  with assms(1) have "hs = hits" by (simp add: retrieve_def)
  with nearest_nonempty [OF n assms(3)] show ?thesis by simp
qed

text \<open>
  C3. When the LLM is unreachable, \<open>answer\<close> still returns a response and no error: the
  answer field is absent and the hits are those retrieved (not empty when chunks are
  embedded and \<open>k\<close> is positive). The chat page, given that response, shows the hits
  with the empty answer, no citations and no error; given a response with no field at
  all it falls back to the empty answer and the empty lists.
\<close>

theorem answer_degrades_to_hits:
  assumes "\<forall>ctx. llm cap q ctx mt = None"
  shows "\<exists>hits r. retrieve cap cs q k = Inr hits \<and> answer cap cs q k mt = Inr r \<and>
           qa_answer r = None \<and> qa_hits r = Some (map (context_hit cap) hits) \<and>
           (embedded_chunks cs \<noteq> [] \<and> 0 < k \<longrightarrow> hits_of r \<noteq> []) \<and>
           (trim (c_query st) \<noteq> [] \<and> \<not> c_loading st \<longrightarrow>
              chat_run st (ask api (\<lambda>req. ok_response r) st) =
                st\<lparr>c_loading := False, c_error := [], c_answer := [], c_citations := [],
                   c_hits := map (context_hit cap) hits\<rparr>) \<and>
           (trim (c_query st) \<noteq> [] \<and> \<not> c_loading st \<longrightarrow>
              chat_run st (ask api
                  (\<lambda>req. ok_response \<lparr>qa_answer = None, qa_citations = None, qa_hits = None\<rparr>) st) =
                st\<lparr>c_loading := False, c_error := [], c_answer := [], c_citations := [],
                   c_hits := []\<rparr>)"
proof -
  obtain hits where h: "retrieve cap cs q k = Inr hits"
    using retrieve_total by blast
  define r where "r = \<lparr>qa_answer = None, qa_citations = None,
    qa_hits = Some (map (context_hit cap) hits)\<rparr>"
  have a: "answer cap cs q k mt = Inr r"
    using answer_cases [OF h, of mt] assms by (simp add: r_def)
  have ne: "hits_of r \<noteq> []" if "embedded_chunks cs \<noteq> []" "0 < k"
    using retrieve_nonempty [OF h that] by (simp add: r_def hits_of_def)
  have c1: "chat_run st (ask api (\<lambda>req. ok_response r) st) =
      st\<lparr>c_loading := False, c_error := [], c_answer := [], c_citations := [],
         c_hits := map (context_hit cap) hits\<rparr>"
    if "trim (c_query st) \<noteq> []" "\<not> c_loading st"
    using run_ask_ok [OF that, of "\<lambda>req. ok_response r" api 200 "''OK''" r]
    by (simp add: ok_response_def r_def)
  have c2: "chat_run st (ask api
        (\<lambda>req. ok_response \<lparr>qa_answer = None, qa_citations = None, qa_hits = None\<rparr>) st) =
      st\<lparr>c_loading := False, c_error := [], c_answer := [], c_citations := [], c_hits := []\<rparr>"
    if "trim (c_query st) \<noteq> []" "\<not> c_loading st"
    using run_ask_ok [OF that, of _ api 200 "''OK''"
        "\<lparr>qa_answer = None, qa_citations = None, qa_hits = None\<rparr>"]
    by (simp add: ok_response_def)
  have "qa_answer r = None" "qa_hits r = Some (map (context_hit cap) hits)"
    by (simp_all add: r_def)
  with h a ne c1 c2 show ?thesis by blast
qed

lemma search_empty_index:
  "embedded_chunks cs = [] \<Longrightarrow>
     search cap cs q k = Inr \<lparr>sr_query = q, sr_results = [], total_results = 0\<rparr>"
  by (simp add: search_def nearest_def Let_def)

text \<open>
  C4. With no embedded chunk, the search the page asks for (its trimmed query, \<open>k = 10\<close>)
  returns a response and no error, with \<open>total_results = 0\<close> and no results; the page,
  given that response, stores it, shows no error and renders the empty-result message.
\<close>

theorem empty_index_gives_empty_result:
  assumes "embedded_chunks cs = []" and "trim (s_query st) \<noteq> []"
  shows "\<exists>d. search cap cs (trim (s_query st)) 10 = Inr d \<and>
           total_results d = 0 \<and> sr_results d = [] \<and>
           s_results (search_run st (handleSearch api (\<lambda>req. ok_response d) st)) = Some d \<and>
           s_error (search_run st (handleSearch api (\<lambda>req. ok_response d) st)) = [] \<and>
           SearchPage (search_run st (handleSearch api (\<lambda>req. ok_response d) st)) =
             [NoResultsFound]"
proof -
  define d where "d = \<lparr>sr_query = trim (s_query st), sr_results = [], total_results = 0\<rparr>"
  have s: "search cap cs (trim (s_query st)) 10 = Inr d"
    using search_empty_index [OF assms(1)] by (simp add: d_def)
  have run: "search_run st (handleSearch api (\<lambda>req. ok_response d) st) =
      st\<lparr>s_loading := False, s_error := [], s_results := Some d\<rparr>"
    using run_handleSearch_ok [OF assms(2), of "\<lambda>req. ok_response d" api 200 "''OK''" d]
    by (simp add: ok_response_def)
  have "SearchPage (st\<lparr>s_loading := False, s_error := [], s_results := Some d\<rparr>) =
      [NoResultsFound]"
    by (simp add: SearchPage_def d_def)
  with s run show ?thesis
    by (simp add: d_def)
qed

text \<open>The sample index with the LLM down: a response with hits and no answer.\<close>

theorem answer_degrades_to_hits_witness:
  "\<exists>r. answer sample_cap_down sample_chunks ''abc'' 5 100 = Inr r \<and>
     qa_answer r = None \<and> hits_of r \<noteq> [] \<and>
     chat_run
       \<lparr>c_query = ''why?'', c_loading = False, c_answer = ''old'', c_citations = [],
        c_hits = [], c_error = ''old''\<rparr>
       (ask ''http://localhost:8000'' (\<lambda>req. ok_response r)
         \<lparr>c_query = ''why?'', c_loading = False, c_answer = ''old'', c_citations = [],
          c_hits = [], c_error = ''old''\<rparr>) =
     \<lparr>c_query = ''why?'', c_loading = False, c_answer = [], c_citations = [],
      c_hits = hits_of r, c_error = []\<rparr>"
proof -
  let ?st = "\<lparr>c_query = ''why?'', c_loading = False, c_answer = ''old'', c_citations = [],
     c_hits = [], c_error = ''old''\<rparr>"
  have h: "\<forall>ctx. llm sample_cap_down ''abc'' ctx 100 = None"
    by (simp add: sample_cap_down_def sample_cap_def llm_down_def)
  have e: "embedded_chunks sample_chunks \<noteq> [] \<and> (0::nat) < 5"
    by (simp add: embedded_chunks_def sample_chunks_def List.map_filter_def)
  have t: "trim (c_query ?st) \<noteq> [] \<and> \<not> c_loading ?st"
    by (simp add: trim_def is_ws_def)
  from answer_degrades_to_hits [OF h, of sample_chunks 5 ?st "''http://localhost:8000''"] e t
  obtain hits r where
    "answer sample_cap_down sample_chunks ''abc'' 5 100 = Inr r"
    "qa_answer r = None" "qa_hits r = Some (map (context_hit sample_cap_down) hits)"
    "hits_of r \<noteq> []"
    "chat_run ?st (ask ''http://localhost:8000'' (\<lambda>req. ok_response r) ?st) =
       ?st\<lparr>c_loading := False, c_error := [], c_answer := [], c_citations := [],
          c_hits := map (context_hit sample_cap_down) hits\<rparr>"
    by blast
  then show ?thesis
    by (intro exI [of _ r]) (simp add: hits_of_def)
qed

text \<open>An index whose only chunk is not embedded, searched for \<open> cats\<close> (with a leading space).\<close>

theorem empty_index_gives_empty_result_witness:
  "\<exists>d. search sample_cap [\<lparr>chunk_id = 2, chunk_document = 7, chunk_ordinal = 1,
           chunk_text = ''beta'', chunk_embedding = None\<rparr>] ''cats'' 10 = Inr d \<and>
     total_results d = 0 \<and>
     SearchPage (search_run
        \<lparr>s_query = '' cats'', s_results = None, s_loading = False, s_error = ''old''\<rparr>
        (handleSearch ''http://localhost:8000'' (\<lambda>req. ok_response d)
           \<lparr>s_query = '' cats'', s_results = None, s_loading = False, s_error = ''old''\<rparr>)) =
       [NoResultsFound]"
proof -
  have e: "embedded_chunks [\<lparr>chunk_id = 2, chunk_document = 7, chunk_ordinal = 1,
      chunk_text = ''beta'', chunk_embedding = (None :: int option)\<rparr>] = []"
    by (simp add: embedded_chunks_def List.map_filter_def)
  have t: "trim '' cats'' = ''cats''"
    by (simp add: trim_def is_ws_def)
  then have ne: "trim (s_query \<lparr>s_query = '' cats'', s_results = None, s_loading = False,
      s_error = ''old''\<rparr>) \<noteq> []"
    by simp
  from empty_index_gives_empty_result [OF e ne, of sample_cap "''http://localhost:8000''"]
  obtain d where
    "search sample_cap [\<lparr>chunk_id = 2, chunk_document = 7, chunk_ordinal = 1,
        chunk_text = ''beta'', chunk_embedding = None\<rparr>] ''cats'' 10 = Inr d"
    "total_results d = 0"
    "SearchPage (search_run
        \<lparr>s_query = '' cats'', s_results = None, s_loading = False, s_error = ''old''\<rparr>
        (handleSearch ''http://localhost:8000'' (\<lambda>req. ok_response d)
           \<lparr>s_query = '' cats'', s_results = None, s_loading = False, s_error = ''old''\<rparr>)) =
       [NoResultsFound]"
    by (auto simp: t)
  then show ?thesis
    by blast
qed

lemma poll_reschedules:
  "(SetTimeoutPoll n \<in> set (poll api (\<lambda>r. ok_response j) d)) =
     (n = 1500 \<and> doc_status j \<notin> {''parsed'', ''error'', ''parsed_empty''})"
  by (auto simp: poll_def ok_response_def)

lemma fetches_poll: "fetches (poll api f d) = [document_request api d]"
  by (auto simp: poll_def fetches_def split: fetch_result.splits sum.splits)

lemma fetches_append: "fetches (xs @ ys) = fetches xs @ fetches ys"
  by (simp add: fetches_def)

lemma poll_loop_fetches:
  assumes "list_all (\<lambda>j. doc_status j \<notin> {''parsed'', ''error'', ''parsed_empty''}) pre"
    and "doc_status j \<in> {''parsed'', ''error'', ''parsed_empty''}"
  shows "fetches (poll_loop api d (pre @ j # post)) =
           replicate (Suc (length pre)) (document_request api d)"
  using assms(1)
proof (induction pre)
  case Nil
  have "SetTimeoutPoll 1500 \<notin> set (poll api (\<lambda>r. ok_response j) d)"
    using assms(2) by (simp add: poll_reschedules)
  then show ?case
    by (simp add: Let_def fetches_append fetches_poll)
next
  case (Cons p pre)
  then have "SetTimeoutPoll 1500 \<in> set (poll api (\<lambda>r. ok_response p) d)"
    by (simp add: poll_reschedules)
  with Cons show ?case
    by (simp add: Let_def fetches_append fetches_poll)
qed

text \<open>
  C5 (amended). A run of the status poll that is answered schedules the next run, after
  1500 ms and no other delay, exactly when the status is none of \<open>parsed\<close>, \<open>error\<close> and
  \<open>parsed_empty\<close>; so the document is fetched once for every status reported up to and
  including the first of these three, and not again.
\<close>

theorem poll_stops_on_parsed_error_parsed_empty:
  "(SetTimeoutPoll 1500 \<in> set (poll api (\<lambda>r. ok_response j) d)) =
     (doc_status j \<notin> {''parsed'', ''error'', ''parsed_empty''}) \<and>
   (\<forall>n. SetTimeoutPoll n \<in> set (poll api (\<lambda>r. ok_response j) d) \<longrightarrow> n = 1500) \<and>
   (list_all (\<lambda>j. doc_status j \<notin> {''parsed'', ''error'', ''parsed_empty''}) pre \<and>
    doc_status j \<in> {''parsed'', ''error'', ''parsed_empty''} \<longrightarrow>
      fetches (poll_loop api d (pre @ j # post)) =
        replicate (Suc (length pre)) (document_request api d))"
  using poll_loop_fetches [of pre j api d post] by (simp add: poll_reschedules)

text \<open>Statuses \<open>queued\<close>, \<open>queued\<close>, \<open>parsed\<close>, \<open>embedded\<close>: three fetches, the fourth status is not read.\<close>

theorem poll_stops_on_parsed_error_parsed_empty_witness:
  "fetches (poll_loop ''http://localhost:8000'' 12
      [\<lparr>doc_status = ''queued'', doc_chunks = 0\<rparr>, \<lparr>doc_status = ''queued'', doc_chunks = 0\<rparr>,
       \<lparr>doc_status = ''parsed'', doc_chunks = 4\<rparr>, \<lparr>doc_status = ''embedded'', doc_chunks = 4\<rparr>]) =
     replicate 3 (document_request ''http://localhost:8000'' 12) \<and>
   SetTimeoutPoll 1500 \<in> set (poll ''http://localhost:8000''
      (\<lambda>r. ok_response \<lparr>doc_status = ''queued'', doc_chunks = 0\<rparr>) 12) \<and>
   SetTimeoutPoll 1500 \<notin> set (poll ''http://localhost:8000''
      (\<lambda>r. ok_response \<lparr>doc_status = ''parsed_empty'', doc_chunks = 0\<rparr>) 12)"
proof -
  have a: "fetches (poll_loop ''http://localhost:8000'' 12
      [\<lparr>doc_status = ''queued'', doc_chunks = 0\<rparr>, \<lparr>doc_status = ''queued'', doc_chunks = 0\<rparr>,
       \<lparr>doc_status = ''parsed'', doc_chunks = 4\<rparr>, \<lparr>doc_status = ''embedded'', doc_chunks = 4\<rparr>]) =
     replicate 3 (document_request ''http://localhost:8000'' 12)"
    using poll_stops_on_parsed_error_parsed_empty
      [of "''http://localhost:8000''" "\<lparr>doc_status = ''parsed'', doc_chunks = 4\<rparr>" 12
        "[\<lparr>doc_status = ''queued'', doc_chunks = 0\<rparr>, \<lparr>doc_status = ''queued'', doc_chunks = 0\<rparr>]"
        "[\<lparr>doc_status = ''embedded'', doc_chunks = 4\<rparr>]"]
    by (simp add: numeral_3_eq_3)
  have b: "SetTimeoutPoll 1500 \<in> set (poll ''http://localhost:8000''
      (\<lambda>r. ok_response \<lparr>doc_status = ''queued'', doc_chunks = 0\<rparr>) 12)"
    using poll_stops_on_parsed_error_parsed_empty
      [of "''http://localhost:8000''" "\<lparr>doc_status = ''queued'', doc_chunks = 0\<rparr>" 12 "[]" "[]"]
    by simp
  have c: "SetTimeoutPoll 1500 \<notin> set (poll ''http://localhost:8000''
      (\<lambda>r. ok_response \<lparr>doc_status = ''parsed_empty'', doc_chunks = 0\<rparr>) 12)"
    using poll_stops_on_parsed_error_parsed_empty
      [of "''http://localhost:8000''" "\<lparr>doc_status = ''parsed_empty'', doc_chunks = 0\<rparr>" 12 "[]" "[]"]
    by simp
  from a b c show ?thesis by simp
qed

text \<open>
  C5 as stated fails: on the status \<open>done\<close> the poll schedules itself again, and on the
  status \<open>parsed\<close>, which is not terminal in the state machine, it stops.
\<close>

theorem poll_continues_on_done:
  "SetTimeoutPoll 1500 \<in> set (poll ''http://localhost:8000''
      (\<lambda>r. ok_response \<lparr>doc_status = ''done'', doc_chunks = 4\<rparr>) 12) \<and>
   SetTimeoutPoll 1500 \<notin> set (poll ''http://localhost:8000''
      (\<lambda>r. ok_response \<lparr>doc_status = ''parsed'', doc_chunks = 4\<rparr>) 12)"
  by (simp add: poll_def ok_response_def)

section \<open>Properties of the home page\<close>

lemma fetches_fetchApiHealth: "fetches (fetchApiHealth fetch) = [health_request]"
  by (auto simp: fetchApiHealth_def fetches_def split: fetch_result.splits sum.splits)

text \<open>
  C6 (amended). The health check of the home page requests the \<open>GET /health\<close> endpoint
  (at \<open>http://localhost:8000\<close>), whatever the server answers; a payload that comes with
  an \<open>ok\<close> response is stored as the data, typed with the fields \<open>status\<close>, \<open>timestamp\<close>,
  \<open>version\<close> and \<open>environment\<close>, and the page shows its environment, its version and its
  timestamp converted to a local date.
\<close>

theorem health_check_requests_health:
  "fetches (fetchApiHealth fetch) =
     [\<lparr>req_method = GET, req_url = ''http://localhost:8000'' @ ''/health'',
       req_headers = [(''Content-Type'', ''application/json'')], req_body = NoBody\<rparr>] \<and>
   home_run st (fetchApiHealth (\<lambda>r. Response True code status_text (Inr d))) =
     \<lparr>isLoading = False, isConnected = True, api_data = Some d, api_error = None\<rparr> \<and>
   api_details toLocaleString
       (home_run st (fetchApiHealth (\<lambda>r. Response True code status_text (Inr d)))) =
     [(''Environment'', h_environment d), (''Version'', h_version d),
      (''Last Updated'', toLocaleString (h_timestamp d))] \<and>
   d = \<lparr>h_status = h_status d, h_timestamp = h_timestamp d, h_version = h_version d,
        h_environment = h_environment d\<rparr>"
proof -
  have "fetches (fetchApiHealth fetch) =
     [\<lparr>req_method = GET, req_url = ''http://localhost:8000'' @ ''/health'',
       req_headers = [(''Content-Type'', ''application/json'')], req_body = NoBody\<rparr>]"
    by (simp add: fetches_fetchApiHealth health_request_def)
  moreover have "home_run st (fetchApiHealth (\<lambda>r. Response True code status_text (Inr d))) =
     \<lparr>isLoading = False, isConnected = True, api_data = Some d, api_error = None\<rparr>"
    by (simp add: fetchApiHealth_def home_run_def)
  ultimately show ?thesis
    by (simp add: api_details_def)
qed

text \<open>
  C6 as stated fails: the URL requested is that of \<open>/health\<close> and not that of
  \<open>/healthz\<close>, and two responses with the same \<open>status\<close>, \<open>version\<close> and \<open>timestamp\<close> but
  another \<open>environment\<close> are shown differently, so more than \<open>status\<close> and \<open>version\<close> is
  consumed.
\<close>

theorem health_check_not_healthz:
  "map req_url (fetches (fetchApiHealth (\<lambda>r. ok_response
      \<lparr>h_status = ''ok'', h_timestamp = ''2025-01-01T00:00:00Z'', h_version = ''0.1.0'',
       h_environment = ''development''\<rparr>))) = [''http://localhost:8000/health''] \<and>
   ''http://localhost:8000/health'' \<noteq> ''http://localhost:8000/healthz'' \<and>
   api_details sample_toLocaleString (home_run
      \<lparr>isLoading = True, isConnected = False, api_data = None, api_error = None\<rparr>
      (fetchApiHealth (\<lambda>r. ok_response
        \<lparr>h_status = ''ok'', h_timestamp = ''2025-01-01T00:00:00Z'', h_version = ''0.1.0'',
         h_environment = ''development''\<rparr>))) =
     [(''Environment'', ''development''), (''Version'', ''0.1.0''),
      (''Last Updated'', ''1/1/2025, 12:00:00 AM'')] \<and>
   api_details sample_toLocaleString (home_run
      \<lparr>isLoading = True, isConnected = False, api_data = None, api_error = None\<rparr>
      (fetchApiHealth (\<lambda>r. ok_response
        \<lparr>h_status = ''ok'', h_timestamp = ''2025-01-01T00:00:00Z'', h_version = ''0.1.0'',
         h_environment = ''production''\<rparr>))) =
     [(''Environment'', ''production''), (''Version'', ''0.1.0''),
      (''Last Updated'', ''1/1/2025, 12:00:00 AM'')] \<and>
   [(''Environment'', ''development''), (''Version'', ''0.1.0''),
    (''Last Updated'', ''1/1/2025, 12:00:00 AM'')] \<noteq>
   [(''Environment'', ''production''), (''Version'', ''0.1.0''),
    (''Last Updated'', ''1/1/2025, 12:00:00 AM'')]"
proof -
  have run: "home_run st (fetchApiHealth (\<lambda>r. ok_response d)) =
     \<lparr>isLoading = False, isConnected = True, api_data = Some d, api_error = None\<rparr>" for st d
    by (simp add: fetchApiHealth_def home_run_def ok_response_def)
  show ?thesis
    by (simp add: fetches_fetchApiHealth health_request_def run api_details_def
        sample_toLocaleString_def)
qed

section \<open>Properties of the highlighting\<close>

lemma split_on_nonempty: "split_on sep s \<noteq> []"
  by (induction s) (auto split: list.splits)

lemma split_on_no_sep: "sep \<notin> set t \<Longrightarrow> split_on sep t = [t]"
  by (induction t) auto

lemma split_on_append_sep:
  "sep \<notin> set t \<Longrightarrow> split_on sep (t @ sep # rest) = t # split_on sep rest"
  by (induction t) auto

lemma split_on_join:
  "ts \<noteq> [] \<Longrightarrow> list_all (\<lambda>t. sep \<notin> set t) ts \<Longrightarrow> split_on sep (join_with sep ts) = ts"
proof (induction sep ts rule: join_with.induct)
  case (1 sep)
  then show ?case by simp
next
  case (2 sep t)
  then show ?case by (simp add: split_on_no_sep)
next
  case (3 sep t u ts)
  then show ?case by (simp add: split_on_append_sep)
qed

lemma split_on_chars: "t \<in> set (split_on sep s) \<Longrightarrow> set t \<subseteq> set s - {sep}"
proof (induction s arbitrary: t)
  case Nil
  then show ?case by simp
next
  case (Cons c cs)
  show ?case
  proof (cases "c = sep")
    case True
    with Cons show ?thesis by auto
  next
    case False
    obtain u us where u: "split_on sep cs = u # us"
      using split_on_nonempty [of sep cs] by (cases "split_on sep cs") auto
    with False Cons.prems have "t = c # u \<or> t \<in> set us" by auto
    then show ?thesis
    proof
      assume "t = c # u"
      moreover have "set u \<subseteq> set cs - {sep}" using Cons.IH [of u] u by simp
      ultimately show ?thesis using False by auto
    next
      assume "t \<in> set us"
      then have "set t \<subseteq> set cs - {sep}" using Cons.IH [of t] u by simp
      then show ?thesis by auto
    qed
  qed
qed

lemma join_with_chars: "set (join_with sep ts) \<subseteq> insert sep (\<Union> (set ` set ts))"
  by (induction sep ts rule: join_with.induct) auto

lemma RegExp_alternatives_literal:
  assumes "ts \<noteq> []" and "\<forall>t\<in>set ts. \<forall>c\<in>set t. c \<notin> set regex_syntax_chars"
  shows "RegExp_alternatives (''('' @ join_with (CHR ''|'') ts @ '')'') = Some ts"
proof -
  have bar: "CHR ''|'' \<in> set regex_syntax_chars"
    by (simp add: regex_syntax_chars_def)
  have nobar: "list_all (\<lambda>t. CHR ''|'' \<notin> set t) ts"
    using assms(2) bar by (auto simp: list_all_iff)
  have chars: "list_all (\<lambda>x. x = CHR ''|'' \<or> x \<notin> set regex_syntax_chars)
      (join_with (CHR ''|'') ts)"
    using assms(2) join_with_chars [of "CHR ''|''" ts] by (auto simp: list_all_iff)
  show ?thesis
    using chars split_on_join [OF assms(1) nobar] by (simp add: RegExp_alternatives_def)
qed

lemma first_match_None: "(first_match alts s = None) = (\<forall>a\<in>set alts. \<not> match_prefix a s)"
  by (induction alts) auto

lemma first_match_Some:
  "first_match alts s = Some n \<Longrightarrow> \<exists>a\<in>set alts. match_prefix a s \<and> length a = n"
  by (induction alts) (auto split: if_splits)

lemma match_prefix_take:
  "match_prefix a s \<Longrightarrow>
     length a \<le> length s \<and> map canonicalize (take (length a) s) = map canonicalize a"
  by (induction a s rule: match_prefix.induct) auto

lemma match_prefix_append: "match_prefix a r \<Longrightarrow> match_prefix a (r @ rest)"
  by (induction a r rule: match_prefix.induct) auto

lemma match_prefix_Nil: "match_prefix a [] = (a = [])"
  by (cases a) auto

lemma segments_chars: "concat (map seg_chars (segments alts s)) = s"
proof (induction alts s rule: segments.induct)
  case (1 alts)
  then show ?case by (simp split: option.splits)
next
  case (2 alts c cs)
  show ?case
  proof (cases "first_match alts (c # cs)")
    case None
    with 2 show ?thesis by simp
  next
    case (Some n)
    show ?thesis
    proof (cases n)
      case 0
      with Some 2 show ?thesis by simp
    next
      case (Suc m)
      with Some 2 show ?thesis by simp
    qed
  qed
qed

lemma marks_simps [simp]:
  "marks [] = []"
  "marks (Plain c # segs) = marks segs"
  "marks (Mark m # segs) = m # marks segs"
  by (simp_all add: marks_def)

lemma segments_marks:
  "m \<in> set (marks (segments alts s)) \<Longrightarrow>
     \<exists>a\<in>set alts. map canonicalize m = map canonicalize a"
proof (induction alts s arbitrary: m rule: segments.induct)
  case (1 alts)
  show ?case
  proof (cases "first_match alts []")
    case None
    with 1 show ?thesis by simp
  next
    case (Some n)
    with 1 have m: "m = []" by simp
    from first_match_Some [OF Some] obtain a where "a \<in> set alts" "match_prefix a []"
      by blast
    then show ?thesis using m by (auto simp: match_prefix_Nil)
  qed
next
  case (2 alts c cs)
  show ?case
  proof (cases "first_match alts (c # cs)")
    case None
    with "2.prems" have "m \<in> set (marks (segments alts cs))" by simp
    with "2.IH"(1) [OF None] show ?thesis .
  next
    case (Some n)
    from first_match_Some [OF Some] obtain a where
      a: "a \<in> set alts" "match_prefix a (c # cs)" "length a = n"
      by blast
    show ?thesis
    proof (cases n)
      case 0
      with a have e: "a = []" by simp
      from 0 Some "2.prems" have "m = [] \<or> m \<in> set (marks (segments alts cs))" by simp
      then show ?thesis
      proof
        assume "m = []"
        with e a(1) show ?thesis by auto
      next
        assume "m \<in> set (marks (segments alts cs))"
        with "2.IH"(2) [OF Some 0] show ?thesis .
      qed
    next
      case (Suc k)
      have c: "map canonicalize (c # take k cs) = map canonicalize a"
        using match_prefix_take [OF a(2)] a(3) Suc by simp
      from Suc Some "2.prems" have
        "m = c # take k cs \<or> m \<in> set (marks (segments alts (drop k cs)))" by simp
      then show ?thesis
      proof
        assume "m = c # take k cs"
        with c a(1) show ?thesis by blast
      next
        assume "m \<in> set (marks (segments alts (drop k cs)))"
        with "2.IH"(3) [OF Some Suc] show ?thesis .
      qed
    qed
  qed
qed

lemma segments_marks_nonempty:
  "[] \<notin> set alts \<Longrightarrow> m \<in> set (marks (segments alts s)) \<Longrightarrow> m \<noteq> []"
proof (induction alts s arbitrary: m rule: segments.induct)
  case (1 alts)
  have "first_match alts [] = None"
    using "1.prems"(1) by (auto simp: first_match_None match_prefix_Nil)
  with "1.prems" show ?case by simp
next
  case (2 alts c cs)
  show ?case
  proof (cases "first_match alts (c # cs)")
    case None
    with "2.prems" have "m \<in> set (marks (segments alts cs))" by simp
    with "2.IH"(1) [OF None "2.prems"(1)] show ?thesis .
  next
    case (Some n)
    from first_match_Some [OF Some] obtain a where
      a: "a \<in> set alts" "length a = n"
      by blast
    with "2.prems"(1) have "n \<noteq> 0" by auto
    then obtain k where k: "n = Suc k" by (cases n) auto
    from k Some "2.prems" have
      "m = c # take k cs \<or> m \<in> set (marks (segments alts (drop k cs)))" by simp
    then show ?thesis
    proof
      assume "m = c # take k cs"
      then show ?thesis by simp
    next
      assume "m \<in> set (marks (segments alts (drop k cs)))"
      with "2.IH"(3) [OF Some k "2.prems"(1)] show ?thesis .
    qed
  qed
qed

lemma plain_runs_nonempty: "plain_runs segs \<noteq> []"
  by (induction segs rule: plain_runs.induct) (auto split: list.splits)

lemma segments_plain_runs:
  assumes "[] \<notin> set alts"
  shows "(\<exists>rest. s = hd (plain_runs (segments alts s)) @ rest) \<and>
         (\<forall>r\<in>set (plain_runs (segments alts s)). \<forall>a\<in>set alts. \<not> occurs a r)"
  using assms
proof (induction alts s rule: segments.induct)
  case (1 alts)
  have "first_match alts [] = None"
    using "1.prems" by (auto simp: first_match_None match_prefix_Nil)
  then show ?case
    using "1.prems" by (auto simp: match_prefix_Nil)
next
  case (2 alts c cs)
  show ?case
  proof (cases "first_match alts (c # cs)")
    case None
    obtain r0 rs where runs: "plain_runs (segments alts cs) = r0 # rs"
      using plain_runs_nonempty [of "segments alts cs"]
      by (cases "plain_runs (segments alts cs)") auto
    from "2.IH"(1) [OF None "2.prems"] runs obtain rest where
      rest: "cs = r0 @ rest" and
      free: "\<forall>r\<in>set (r0 # rs). \<forall>a\<in>set alts. \<not> occurs a r"
      by auto
    have new: "plain_runs (segments alts (c # cs)) = (c # r0) # rs"
      using None runs by simp
    have "\<not> occurs a (c # r0)" if "a \<in> set alts" for a
    proof
      assume "occurs a (c # r0)"
      then have "match_prefix a (c # r0) \<or> occurs a r0" by simp
      then show False
      proof
        assume "match_prefix a (c # r0)"
        then have "match_prefix a ((c # r0) @ rest)" by (rule match_prefix_append)
        then have "match_prefix a (c # cs)" using rest by simp
        with None that show False by (simp add: first_match_None)
      next
        assume "occurs a r0"
        with free that show False by simp
      qed
    qed
    with free rest show ?thesis
      unfolding new by auto
  next
    case (Some n)
    from first_match_Some [OF Some] obtain a where "a \<in> set alts" "length a = n"
      by blast
    with "2.prems" have "n \<noteq> 0" by auto
    then obtain k where k: "n = Suc k" by (cases n) auto
    have new: "plain_runs (segments alts (c # cs)) = [] # plain_runs (segments alts (drop k cs))"
      using Some k by simp
    from "2.IH"(3) [OF Some k "2.prems"] have
      "\<forall>r\<in>set (plain_runs (segments alts (drop k cs))). \<forall>a\<in>set alts. \<not> occurs a r"
      by simp
    then show ?thesis
      unfolding new using "2.prems" by (auto simp: match_prefix_Nil)
  qed
qed

text \<open>
  Where the highlighting does what is expected of it. A blank query leaves the text
  as it is. For a query whose pieces between single spaces are not empty and have no
  syntax character of regular expressions, the result is the rendering of the
  segments of the text: the segments spell the text, every marked piece is not empty
  and equals one of the pieces of the query up to case, and no piece of the query
  occurs in a run of unmarked characters.
\<close>

theorem highlightText_wraps_literal_tokens:
  "(trim q = [] \<longrightarrow> highlightText s q = Some s) \<and>
   (trim q \<noteq> [] \<and> list_all (\<lambda>c. c \<notin> set regex_syntax_chars) (trim q) \<and>
    [] \<notin> set (split_on (CHR '' '') (trim q)) \<longrightarrow>
      highlightText s q = Some (render (segments (split_on (CHR '' '') (trim q)) s)) \<and>
      concat (map seg_chars (segments (split_on (CHR '' '') (trim q)) s)) = s \<and>
      list_all (\<lambda>m. m \<noteq> [] \<and>
          list_ex (\<lambda>t. map canonicalize m = map canonicalize t) (split_on (CHR '' '') (trim q)))
        (marks (segments (split_on (CHR '' '') (trim q)) s)) \<and>
      list_all (\<lambda>r. list_all (\<lambda>t. \<not> occurs t r) (split_on (CHR '' '') (trim q)))
        (plain_runs (segments (split_on (CHR '' '') (trim q)) s)))"
proof (intro conjI impI)
  assume "trim q = []"
  then show "highlightText s q = Some s"
    by (simp add: highlightText_def)
next
  define toks where "toks = split_on (CHR '' '') (trim q)"
  assume a: "trim q \<noteq> [] \<and> list_all (\<lambda>c. c \<notin> set regex_syntax_chars) (trim q) \<and>
    [] \<notin> set (split_on (CHR '' '') (trim q))"
  then have ne: "trim q \<noteq> []" and lit: "\<forall>c\<in>set (trim q). c \<notin> set regex_syntax_chars"
    and noempty: "[] \<notin> set toks"
    by (simp_all add: list_all_iff toks_def)
  have toks_ne: "toks \<noteq> []"
    unfolding toks_def by (rule split_on_nonempty)
  have toks_lit: "\<forall>t\<in>set toks. \<forall>c\<in>set t. c \<notin> set regex_syntax_chars"
    using split_on_chars [of _ "CHR '' ''" "trim q"] lit unfolding toks_def by blast
  show "highlightText s q = Some (render (segments (split_on (CHR '' '') (trim q)) s))"
    using ne RegExp_alternatives_literal [OF toks_ne toks_lit]
    by (simp add: highlightText_def toks_def)
  show "concat (map seg_chars (segments (split_on (CHR '' '') (trim q)) s)) = s"
    by (rule segments_chars)
  show "list_all (\<lambda>m. m \<noteq> [] \<and>
          list_ex (\<lambda>t. map canonicalize m = map canonicalize t) (split_on (CHR '' '') (trim q)))
        (marks (segments (split_on (CHR '' '') (trim q)) s))"
    using segments_marks [of _ toks s] segments_marks_nonempty [OF noempty, of _ s]
    unfolding toks_def [symmetric] by (auto simp: list_all_iff list_ex_iff)
  show "list_all (\<lambda>r. list_all (\<lambda>t. \<not> occurs t r) (split_on (CHR '' '') (trim q)))
        (plain_runs (segments (split_on (CHR '' '') (trim q)) s))"
    using segments_plain_runs [OF noempty, of s]
    unfolding toks_def [symmetric] by (auto simp: list_all_iff)
qed

text \<open>The query \<open> hello wor \<close> in \<open>Hello World\<close>: \<open>Hello\<close> and \<open>Wor\<close> are marked.\<close>

theorem highlightText_wraps_literal_tokens_witness:
  "highlightText ''Hello World'' '' hello wor '' =
     Some (mark_open @ ''Hello'' @ mark_close @ '' '' @ mark_open @ ''Wor'' @ mark_close @ ''ld'')"
proof -
  have h: "trim '' hello wor '' \<noteq> [] \<and>
      list_all (\<lambda>c. c \<notin> set regex_syntax_chars) (trim '' hello wor '') \<and>
      [] \<notin> set (split_on (CHR '' '') (trim '' hello wor ''))"
    by code_simp
  have r: "render (segments (split_on (CHR '' '') (trim '' hello wor '')) ''Hello World'') =
      mark_open @ ''Hello'' @ mark_close @ '' '' @ mark_open @ ''Wor'' @ mark_close @ ''ld''"
    by code_simp
  from highlightText_wraps_literal_tokens [of "'' hello wor ''" "''Hello World''"] h
  have "highlightText ''Hello World'' '' hello wor '' =
      Some (render (segments (split_on (CHR '' '') (trim '' hello wor '')) ''Hello World''))"
    by blast
  with r show ?thesis by simp
qed

text \<open>
  C10. The claim: a non-blank query gives the text with the occurrences of the query's
  tokens between white space wrapped in \<open>mark\<close> and every other character unchanged.
  The code does not do that for the query \<open>a  b\<close> (two spaces) on the text \<open>b\<close>: the
  empty piece between the two spaces becomes an empty alternative, which matches
  before \<open>b\<close> is tried, so an empty \<open>mark\<close> is put before and after \<open>b\<close> and \<open>b\<close> itself
  is not wrapped.
\<close>

theorem highlightText_double_space:
  "highlightText ''b'' ''a  b'' = Some (mark_open @ mark_close @ ''b'' @ mark_open @ mark_close) \<and>
   spec_highlightText ''b'' ''a  b'' = mark_open @ ''b'' @ mark_close \<and>
   highlightText ''b'' ''a  b'' \<noteq> Some (spec_highlightText ''b'' ''a  b'')"
  by code_simp

end
